theory Spec2Isabelle
  imports Main "HOL-Library.Sublist"
begin

section \<open>The dataset (frontend/utils/dashboardData.ts)\<close>

text \<open>
  The interfaces of \<^verbatim>\<open>dashboardData.ts\<close> as records. Field names are the source's,
  prefixed where two interfaces share a name or the name is taken in HOL
  (\<^verbatim>\<open>id\<close>, \<^verbatim>\<open>text\<close>, \<^verbatim>\<open>structure\<close>). A JavaScript \<^verbatim>\<open>number\<close> holding a page
  or an offset is an \<^typ>\<open>int\<close>; a \<^verbatim>\<open>string\<close> is a \<^typ>\<open>string\<close>.
\<close>

record Subtopic =
  sub_id :: string
  sub_title :: string
  sub_page_reference :: int
  char_start :: int
  char_end :: int

record Topic =
  t_id :: string
  t_title :: string
  subtopics :: "Subtopic list"
  page_range :: "int list"

record Choice =
  choice_id :: string
  choice_text :: string
  is_correct :: bool
  choice_explanation :: string

record Question =
  question_id :: string
  question_text :: string
  choices :: "Choice list"
  q_topic_id :: string
  difficulty :: string
  q_page_reference :: int

record TopicExplanation =
  te_topic_id :: string
  topic_title :: string
  te_explanation :: string
  prerequisite_concepts :: "string list"
  next_steps :: "string list"
  related_topics :: "string list"

record Structure =
  topics :: "Topic list"
  document_title :: string

record Explanations =
  overarching_explanation :: string
  topic_explanations :: "TopicExplanation list"

record QuizData =
  questions :: "Question list"

record DashboardData =
  dd_structure :: Structure
  dd_explanations :: Explanations
  dd_quiz :: QuizData

subsection \<open>Array.prototype.find and Array.prototype.filter\<close>

text \<open>
  \<^verbatim>\<open>find\<close> walks the array from index 0 and returns the first element the callback
  accepts, \<^verbatim>\<open>undefined\<close> (here \<^term>\<open>None\<close>) when there is none. \<^verbatim>\<open>filter\<close> walks the
  array from index 0 and appends every accepted element to a new array.
\<close>

fun array_find :: "('a \<Rightarrow> bool) \<Rightarrow> 'a list \<Rightarrow> 'a option" where
  "array_find p [] = None"
| "array_find p (x # xs) = (if p x then Some x else array_find p xs)"

fun array_filter :: "('a \<Rightarrow> bool) \<Rightarrow> 'a list \<Rightarrow> 'a list" where
  "array_filter p [] = []"
| "array_filter p (x # xs) = (if p x then x # array_filter p xs else array_filter p xs)"

subsection \<open>Truthiness\<close>

text \<open>
  A value of type \<^verbatim>\<open>string | null\<close> used as a condition is falsy when it is
  \<^verbatim>\<open>null\<close> and also when it is the empty string. \<^verbatim>\<open>a || b\<close> on such a value
  yields \<^verbatim>\<open>a\<close> when it is truthy and \<^verbatim>\<open>b\<close> otherwise.
\<close>

fun truthy :: "string option \<Rightarrow> bool" where
  "truthy None = False"
| "truthy (Some s) = (s \<noteq> [])"

fun or_null :: "string option \<Rightarrow> string option" where
  "or_null None = None"
| "or_null (Some s) = (if s \<noteq> [] then Some s else None)"

fun or_else :: "string option \<Rightarrow> string \<Rightarrow> string" where
  "or_else None d = d"
| "or_else (Some s) d = (if s \<noteq> [] then s else d)"

subsection \<open>Lookups\<close>

definition findTopicById :: "DashboardData \<Rightarrow> string \<Rightarrow> Topic option" where
  "findTopicById data topicId =
     array_find (\<lambda>topic. t_id topic = topicId) (topics (dd_structure data))"

text \<open>
  The \<^verbatim>\<open>for (const topic of data.structure.topics)\<close> loop of \<^verbatim>\<open>findSubtopicById\<close>:
  the first topic whose \<^verbatim>\<open>subtopics.find\<close> succeeds ends the loop (an object is always
  truthy, so \<^verbatim>\<open>if (subtopic)\<close> tests that \<^verbatim>\<open>find\<close> found one).
\<close>

fun findSubtopicById_loop :: "Topic list \<Rightarrow> string \<Rightarrow> (Topic \<times> Subtopic) option" where
  "findSubtopicById_loop [] subtopicId = None"
| "findSubtopicById_loop (topic # rest) subtopicId =
     (case array_find (\<lambda>sub. sub_id sub = subtopicId) (subtopics topic) of
        Some subtopic \<Rightarrow> Some (topic, subtopic)
      | None \<Rightarrow> findSubtopicById_loop rest subtopicId)"

definition findSubtopicById :: "DashboardData \<Rightarrow> string \<Rightarrow> (Topic \<times> Subtopic) option" where
  "findSubtopicById data subtopicId =
     findSubtopicById_loop (topics (dd_structure data)) subtopicId"

text \<open>
  \<^verbatim>\<open>return explanation?.explanation || null\<close>: \<^verbatim>\<open>null\<close> when \<^verbatim>\<open>find\<close> found nothing, and
  also when the text found is the empty string.
\<close>

definition getTopicExplanation :: "DashboardData \<Rightarrow> string \<Rightarrow> string option" where
  "getTopicExplanation data topicId =
     (case array_find (\<lambda>e. te_topic_id e = topicId)
             (topic_explanations (dd_explanations data)) of
        None \<Rightarrow> None
      | Some explanation \<Rightarrow> or_null (Some (te_explanation explanation)))"

definition getSubtopicExplanation :: "DashboardData \<Rightarrow> string \<Rightarrow> string option" where
  "getSubtopicExplanation data subtopicId =
     (case findSubtopicById data subtopicId of
        None \<Rightarrow> None
      | Some result \<Rightarrow> getTopicExplanation data (t_id (fst result)))"

definition getTopicQuestions :: "DashboardData \<Rightarrow> string \<Rightarrow> Question list" where
  "getTopicQuestions data topicId =
     array_filter (\<lambda>q. q_topic_id q = topicId) (questions (dd_quiz data))"

definition getSubtopicQuestions :: "DashboardData \<Rightarrow> string \<Rightarrow> Question list" where
  "getSubtopicQuestions data subtopicId =
     (case findSubtopicById data subtopicId of
        None \<Rightarrow> []
      | Some result \<Rightarrow> getTopicQuestions data (t_id (fst result)))"

text \<open>The quiz panel's view of a question (\<^verbatim>\<open>convertQuestionToQuizFormat\<close>).\<close>

record Answer =
  ans_id :: string
  ans_text :: string
  isCorrect :: bool
  ans_explanation :: string

record QuestionStackItem =
  questionId :: string
  question :: string
  answers :: "Answer list"

definition convertChoice :: "Choice \<Rightarrow> Answer" where
  "convertChoice choice =
     \<lparr>ans_id = choice_id choice, ans_text = choice_text choice,
      isCorrect = is_correct choice, ans_explanation = choice_explanation choice\<rparr>"

definition convertQuestionToQuizFormat :: "Question \<Rightarrow> QuestionStackItem" where
  "convertQuestionToQuizFormat q =
     \<lparr>questionId = question_id q, question = question_text q,
      answers = map convertChoice (choices q)\<rparr>"

section \<open>The dashboard page (DashboardPage)\<close>

text \<open>
  The \<^verbatim>\<open>useState\<close> cells of \<^verbatim>\<open>DashboardPage\<close>, with their initial values. The index
  starts at 0 and is only ever incremented or reset to 0, so it is a \<^typ>\<open>nat\<close>;
  \<^verbatim>\<open>null\<close> and \<^verbatim>\<open>undefined\<close> are \<^term>\<open>None\<close>.
\<close>

record PageState =
  pdfFile :: "string option"
  dashboardData :: "DashboardData option"
  selectedSubtopicId :: "string option"
  pdfPageNumber :: "int option"
  explanationText :: string
  questionStack :: "QuestionStackItem list"
  currentQuestionIndex :: nat
  questionsComplete :: bool

definition initialPageState :: PageState where
  "initialPageState =
     \<lparr>pdfFile = None, dashboardData = None, selectedSubtopicId = None,
      pdfPageNumber = None, explanationText = [], questionStack = [],
      currentQuestionIndex = 0, questionsComplete = False\<rparr>"

text \<open>
  The body of the \<^verbatim>\<open>useEffect\<close> with dependencies
  \<^verbatim>\<open>[dashboardData, selectedSubtopicId]\<close>. Its guard
  \<^verbatim>\<open>if (!dashboardData || !selectedSubtopicId) return\<close> leaves the state alone when
  no dataset is loaded, when nothing is selected, and when the selected id is the
  empty string.
\<close>

definition questionStackEffect :: "PageState \<Rightarrow> PageState" where
  "questionStackEffect st =
     (case dashboardData st of
        None \<Rightarrow> st
      | Some data \<Rightarrow>
          (case selectedSubtopicId st of
             None \<Rightarrow> st
           | Some sid \<Rightarrow>
               if sid = [] then st
               else
                 (let qs = getSubtopicQuestions data sid in
                  if length qs > 0 then
                    st\<lparr>questionStack := map convertQuestionToQuizFormat qs,
                       currentQuestionIndex := 0,
                       questionsComplete := False,
                       explanationText :=
                         or_else (getSubtopicExplanation data sid)
                           ''No explanation available.''\<rparr>
                  else
                    st\<lparr>questionStack := [],
                       currentQuestionIndex := 0,
                       questionsComplete := False,
                       explanationText := ''No questions available for this subtopic.''\<rparr>)))"

definition handleAnswerSelect :: "string \<Rightarrow> PageState \<Rightarrow> PageState" where
  "handleAnswerSelect explanation st = st\<lparr>explanationText := explanation\<rparr>"

text \<open>
  \<^verbatim>\<open>handleNextQuestion\<close>. The comparison \<^verbatim>\<open>currentQuestionIndex < questionStack.length - 1\<close>
  is over JavaScript numbers, so the subtraction is the integers' and not the truncating
  one of \<^typ>\<open>nat\<close>. The \<^verbatim>\<open>else\<close> branch leaves the index where it is.
\<close>

definition handleNextQuestion :: "PageState \<Rightarrow> PageState" where
  "handleNextQuestion st =
     (if int (currentQuestionIndex st) < int (length (questionStack st)) - 1 then
        (let st1 = st\<lparr>currentQuestionIndex := currentQuestionIndex st + 1\<rparr> in
         case dashboardData st of
           None \<Rightarrow> st1
         | Some data \<Rightarrow>
             (case selectedSubtopicId st of
                None \<Rightarrow> st1
              | Some sid \<Rightarrow>
                  if sid = [] then st1
                  else st1\<lparr>explanationText :=
                              or_else (getSubtopicExplanation data sid)
                                ''No explanation available.''\<rparr>))
      else st\<lparr>questionsComplete := True,
              explanationText := ''All questions have been answered!''\<rparr>)"

text \<open>
  \<^verbatim>\<open>handleSubtopicClick(subtopicId, pageReference?)\<close>: the optional argument is absent
  (\<^term>\<open>None\<close>) or a number; \<^verbatim>\<open>pageReference && pageReference > 0\<close> is false for an
  absent argument, for 0 and for a negative number.
\<close>

definition handleSubtopicClick :: "string \<Rightarrow> int option \<Rightarrow> PageState \<Rightarrow> PageState" where
  "handleSubtopicClick subtopicId pageReference st =
     (let st1 = st\<lparr>selectedSubtopicId := Some subtopicId\<rparr> in
      case pageReference of
        None \<Rightarrow> st1
      | Some n \<Rightarrow> if n \<noteq> 0 \<and> n > 0 then st1\<lparr>pdfPageNumber := Some n\<rparr> else st1)"

text \<open>
  The callback of \<^verbatim>\<open>loadDashboardData().then\<close>. The argument is \<^term>\<open>None\<close> when the
  fetch failed (\<^verbatim>\<open>loadDashboardData\<close> catches every error and returns \<^verbatim>\<open>null\<close>).
  \<^verbatim>\<open>topics[0]\<close> and \<^verbatim>\<open>subtopics[0]\<close> are read only under the two length tests.
\<close>

definition dataLoaded :: "DashboardData option \<Rightarrow> PageState \<Rightarrow> PageState" where
  "dataLoaded result st =
     (case result of
        None \<Rightarrow> st
      | Some data \<Rightarrow>
          (let st1 = st\<lparr>dashboardData := Some data\<rparr> in
           if length (topics (dd_structure data)) > 0
              \<and> length (subtopics (topics (dd_structure data) ! 0)) > 0
           then st1\<lparr>selectedSubtopicId :=
                       Some (sub_id (subtopics (topics (dd_structure data) ! 0) ! 0))\<rparr>
           else st1))"

section \<open>The quiz panel (Quiz)\<close>

text \<open>
  The three \<^verbatim>\<open>useState\<close> cells of one mounted \<^verbatim>\<open>Quiz\<close>, and the props it is rendered
  with. A callback prop is modelled by whether it is passed; the callbacks the page
  passes are \<^const>\<open>handleAnswerSelect\<close> and \<^const>\<open>handleNextQuestion\<close>.
\<close>

record QuizState =
  selectedAnswer :: "string option"
  correctAnswerId :: "string option"
  selectedExplanation :: "string option"

record QuizProps =
  prop_question :: string
  prop_answers :: "Answer list"
  onAnswerSelect :: bool
  onNext :: bool
  isComplete :: bool

definition initialQuizState :: QuizState where
  "initialQuizState =
     \<lparr>selectedAnswer = None, correctAnswerId = None, selectedExplanation = None\<rparr>"

text \<open>The effect \<^verbatim>\<open>useEffect(..., [question])\<close>: all three cells back to \<^verbatim>\<open>null\<close>.\<close>

definition resetEffect :: "QuizState \<Rightarrow> QuizState" where
  "resetEffect q =
     q\<lparr>selectedAnswer := None, correctAnswerId := None, selectedExplanation := None\<rparr>"

text \<open>
  \<^verbatim>\<open>handleAnswerClick(answerId, isCorrect, explanation)\<close> runs inside a mounted quiz and
  calls the page's \<^verbatim>\<open>onAnswerSelect\<close>, so it transforms the pair of both states.
  Its guard \<^verbatim>\<open>if (selectedAnswer) return\<close> is a truthiness test.
\<close>

definition handleAnswerClick ::
  "string \<Rightarrow> bool \<Rightarrow> string \<Rightarrow> QuizProps \<Rightarrow> QuizState \<times> PageState \<Rightarrow> QuizState \<times> PageState" where
  "handleAnswerClick answerId correct explanation props s =
     (if truthy (selectedAnswer (fst s)) then s
      else
        (let q1 = (fst s)\<lparr>selectedAnswer := Some answerId,
                           selectedExplanation := Some explanation\<rparr>;
             q2 = (if correct then q1\<lparr>correctAnswerId := Some answerId\<rparr>
                   else (case array_find isCorrect (prop_answers props) of
                           Some a \<Rightarrow> q1\<lparr>correctAnswerId := Some (ans_id a)\<rparr>
                         | None \<Rightarrow> q1))
         in (q2, if onAnswerSelect props then handleAnswerSelect explanation (snd s)
                 else snd s)))"

text \<open>\<^verbatim>\<open>handleNext\<close>: \<^verbatim>\<open>if (selectedAnswer && onNext) onNext()\<close>.\<close>

definition handleNext :: "QuizProps \<Rightarrow> QuizState \<times> PageState \<Rightarrow> QuizState \<times> PageState" where
  "handleNext props s =
     (if truthy (selectedAnswer (fst s)) \<and> onNext props
      then (fst s, handleNextQuestion (snd s)) else s)"

text \<open>
  \<^verbatim>\<open>getButtonStyle\<close>, reduced to the colour it picks: grey before an answer is
  selected, then green for a correct answer and red for every other one.
\<close>

datatype ButtonStyle = Grey | Green | Red

definition getButtonStyle :: "QuizState \<Rightarrow> Answer \<Rightarrow> ButtonStyle" where
  "getButtonStyle q answer =
     (if truthy (selectedAnswer q) then (if isCorrect answer then Green else Red) else Grey)"

section \<open>The explanation panel (Explanation)\<close>

text \<open>
  The panel is handed the page's \<^verbatim>\<open>explanationText\<close> and displays
  \<^verbatim>\<open>text || "No explanation available."\<close>.
\<close>

definition explanationPanelText :: "string \<Rightarrow> string" where
  "explanationPanelText t = or_else (Some t) ''No explanation available.''"

section \<open>Rendering the quiz container\<close>

text \<open>
  What the page renders in the quiz container is the three-way conditional of its JSX:
  a \<^verbatim>\<open>Quiz\<close> keyed \<^verbatim>\<open>`${selectedSubtopicId}-${currentQuestionIndex}`\<close> for the current
  question, else an unkeyed \<^verbatim>\<open>Quiz\<close> with \<^verbatim>\<open>isComplete\<close>, else a placeholder
  \<^verbatim>\<open>div\<close>. The stack is indexed only under the length test.
\<close>

fun decimal :: "nat \<Rightarrow> string" where
  "decimal n =
     (if n < 10 then [char_of (48 + n)]
      else decimal (n div 10) @ [char_of (48 + n mod 10)])"

declare decimal.simps [simp del]

definition quizKey :: "string option \<Rightarrow> nat \<Rightarrow> string" where
  "quizKey sel idx =
     (case sel of None \<Rightarrow> ''null'' | Some s \<Rightarrow> s) @ ''-'' @ decimal idx"

datatype Element = QuizElement "string option" QuizProps | PlaceholderElement

definition quizContainer :: "PageState \<Rightarrow> Element" where
  "quizContainer st =
     (if length (questionStack st) > 0
         \<and> currentQuestionIndex st < length (questionStack st)
      then QuizElement
             (Some (quizKey (selectedSubtopicId st) (currentQuestionIndex st)))
             \<lparr>prop_question = question (questionStack st ! currentQuestionIndex st),
              prop_answers = answers (questionStack st ! currentQuestionIndex st),
              onAnswerSelect = True, onNext = True, isComplete = False\<rparr>
      else if questionsComplete st
      then QuizElement None
             \<lparr>prop_question = [], prop_answers = [],
              onAnswerSelect = False, onNext = False, isComplete = True\<rparr>
      else PlaceholderElement)"

text \<open>
  React keeps a mounted component's state across a render when the new element at the
  same place has the same type and key, and mounts a fresh instance otherwise. A kept
  \<^verbatim>\<open>Quiz\<close> then runs its \<^verbatim>\<open>[question]\<close> effect when that prop changed; a fresh one
  starts from the initial state (its mount effect writes the same values).
\<close>

datatype Panel = QuizPanel "string option" QuizProps QuizState | PlaceholderPanel

fun reconcile :: "Element \<Rightarrow> Panel \<Rightarrow> Panel" where
  "reconcile (QuizElement k props) (QuizPanel k' props' q) =
     (if k = k'
      then QuizPanel k props
             (if prop_question props = prop_question props' then q else resetEffect q)
      else QuizPanel k props initialQuizState)"
| "reconcile (QuizElement k props) PlaceholderPanel = QuizPanel k props initialQuizState"
| "reconcile PlaceholderElement old = PlaceholderPanel"

section \<open>The application: page, mounted panel, events\<close>

record App =
  page :: PageState
  panel :: Panel

definition render :: "PageState \<Rightarrow> Panel \<Rightarrow> App" where
  "render st old = \<lparr>page = st, panel = reconcile (quizContainer st) old\<rparr>"

definition initialApp :: App where
  "initialApp = render initialPageState PlaceholderPanel"

text \<open>
  An event runs its handler, renders, runs the page's effect when one of its
  dependencies changed in that render, and renders again.
\<close>

definition loadEvent :: "DashboardData option \<Rightarrow> App \<Rightarrow> App" where
  "loadEvent result app =
     (case result of
        None \<Rightarrow> app
      | Some data \<Rightarrow>
          (let a1 = render (dataLoaded result (page app)) (panel app)
           in render (questionStackEffect (page a1)) (panel a1)))"

definition subtopicClick :: "string \<Rightarrow> int option \<Rightarrow> App \<Rightarrow> App" where
  "subtopicClick subtopicId pageReference app =
     (let a1 = render (handleSubtopicClick subtopicId pageReference (page app)) (panel app)
      in if selectedSubtopicId (page a1) = selectedSubtopicId (page app) then a1
         else render (questionStackEffect (page a1)) (panel a1))"

text \<open>
  The answer buttons and the Next button exist only in a quiz that is not
  \<^verbatim>\<open>isComplete\<close>. A click on an answer button passes that answer's id, flag and
  explanation to \<^verbatim>\<open>handleAnswerClick\<close>.
\<close>

definition answerClick :: "Answer \<Rightarrow> App \<Rightarrow> App" where
  "answerClick a app =
     (case panel app of
        PlaceholderPanel \<Rightarrow> app
      | QuizPanel k props q \<Rightarrow>
          if isComplete props then app
          else
            (let s = handleAnswerClick (ans_id a) (isCorrect a) (ans_explanation a) props
                       (q, page app)
             in render (snd s) (QuizPanel k props (fst s))))"

definition nextClick :: "App \<Rightarrow> App" where
  "nextClick app =
     (case panel app of
        PlaceholderPanel \<Rightarrow> app
      | QuizPanel k props q \<Rightarrow>
          if isComplete props then app
          else
            (let s = handleNext props (q, page app)
             in render (snd s) (QuizPanel k props (fst s))))"

text \<open>The sidebar passes a subtopic's id and page reference to \<^verbatim>\<open>onSubtopicClick\<close>.\<close>

definition sidebarSelect :: "Subtopic \<Rightarrow> App \<Rightarrow> App" where
  "sidebarSelect sub app = subtopicClick (sub_id sub) (Some (sub_page_reference sub)) app"

section \<open>The progression state machine\<close>

text \<open>
  The states of the specification, read off the page's three cells: \<^verbatim>\<open>Complete\<close>
  once \<^verbatim>\<open>questionsComplete\<close> is set, \<^verbatim>\<open>InProgress\<close> at the current index while
  the stack has a question there, \<^verbatim>\<open>Empty\<close> otherwise.
\<close>

datatype Progression = Empty | InProgress nat | Complete

definition progression :: "PageState \<Rightarrow> Progression" where
  "progression st =
     (if questionsComplete st then Complete
      else if length (questionStack st) > 0
              \<and> currentQuestionIndex st < length (questionStack st)
      then InProgress (currentQuestionIndex st)
      else Empty)"

definition answered :: "QuizState \<Rightarrow> bool" where
  "answered q = (selectedAnswer q \<noteq> None)"

section \<open>States the events can reach\<close>

text \<open>
  The mounted panel is the one the page's last render asked for; a quiz in which no
  answer is recorded is in its initial state; and while nothing is selected the stack
  is empty. \<open>freshIfKeyed\<close> describes the panel between the two renders of a
  selection change. Every state reached from \<open>initialApp\<close> by the four events is
  \<open>coherent\<close> (lemma \<open>reachable_coherent\<close> below).
\<close>

definition mounted :: "App \<Rightarrow> bool" where
  "mounted app =
     (case panel app of
        QuizPanel k props q \<Rightarrow> quizContainer (page app) = QuizElement k props
      | PlaceholderPanel \<Rightarrow> quizContainer (page app) = PlaceholderElement)"

definition quizFresh :: "Panel \<Rightarrow> bool" where
  "quizFresh p =
     (case p of
        QuizPanel k props q \<Rightarrow>
          (case selectedAnswer q of None \<Rightarrow> q = initialQuizState | Some a \<Rightarrow> True)
      | PlaceholderPanel \<Rightarrow> True)"

definition freshIfKeyed :: "Panel \<Rightarrow> bool" where
  "freshIfKeyed p =
     (case p of
        QuizPanel (Some k) props q \<Rightarrow> q = initialQuizState
      | QuizPanel None props q \<Rightarrow> True
      | PlaceholderPanel \<Rightarrow> True)"

definition coherent :: "App \<Rightarrow> bool" where
  "coherent app =
     (mounted app
      \<and> (case selectedSubtopicId (page app) of
            None \<Rightarrow> questionStack (page app) = []
          | Some sid \<Rightarrow> True)
      \<and> quizFresh (panel app))"

inductive reachable :: "App \<Rightarrow> bool" where
  reachable_init: "reachable initialApp"
| reachable_load: "reachable app \<Longrightarrow> reachable (loadEvent result app)"
| reachable_select: "reachable app \<Longrightarrow> reachable (subtopicClick sid pageReference app)"
| reachable_answer: "reachable app \<Longrightarrow> reachable (answerClick a app)"
| reachable_next: "reachable app \<Longrightarrow> reachable (nextClick app)"

section \<open>A sample dataset\<close>

text \<open>
  Two topics with two subtopics each, three questions and two topic explanations.
  The last subtopic and the first choice of the first question carry the empty string
  as their id, the second topic's explanation text is empty, and the second question
  has no correct choice.
\<close>

definition ex_s1 :: Subtopic where
  "ex_s1 = \<lparr>sub_id = ''s1'', sub_title = ''Binary trees'', sub_page_reference = 3,
            char_start = 0, char_end = 120\<rparr>"

definition ex_s2 :: Subtopic where
  "ex_s2 = \<lparr>sub_id = ''s2'', sub_title = ''Traversals'', sub_page_reference = 0,
            char_start = 120, char_end = 300\<rparr>"

definition ex_s3 :: Subtopic where
  "ex_s3 = \<lparr>sub_id = ''s3'', sub_title = ''Heaps'', sub_page_reference = 5,
            char_start = 300, char_end = 420\<rparr>"

definition ex_s4 :: Subtopic where
  "ex_s4 = \<lparr>sub_id = [], sub_title = ''Untitled'', sub_page_reference = 7,
            char_start = 420, char_end = 500\<rparr>"

definition ex_t1 :: Topic where
  "ex_t1 = \<lparr>t_id = ''t1'', t_title = ''Trees'', subtopics = [ex_s1, ex_s2],
            page_range = [1, 4]\<rparr>"

definition ex_t2 :: Topic where
  "ex_t2 = \<lparr>t_id = ''t2'', t_title = ''Heaps'', subtopics = [ex_s3, ex_s4],
            page_range = [5, 8]\<rparr>"

definition ex_cx :: Choice where
  "ex_cx = \<lparr>choice_id = [], choice_text = ''A list'', is_correct = False,
            choice_explanation = ''Wrong.''\<rparr>"

definition ex_cy :: Choice where
  "ex_cy = \<lparr>choice_id = ''y'', choice_text = ''A tree'', is_correct = True,
            choice_explanation = ''Right.''\<rparr>"

definition ex_cn :: Choice where
  "ex_cn = \<lparr>choice_id = ''n'', choice_text = ''A heap'', is_correct = False,
            choice_explanation = ''Neither.''\<rparr>"

definition ex_q1 :: Question where
  "ex_q1 = \<lparr>question_id = ''q1'', question_text = ''Q1?'', choices = [ex_cx, ex_cy],
            q_topic_id = ''t1'', difficulty = ''easy'', q_page_reference = 3\<rparr>"

definition ex_q2 :: Question where
  "ex_q2 = \<lparr>question_id = ''q2'', question_text = ''Q2?'', choices = [ex_cn],
            q_topic_id = ''t2'', difficulty = ''hard'', q_page_reference = 5\<rparr>"

definition ex_q3 :: Question where
  "ex_q3 = \<lparr>question_id = ''q3'', question_text = ''Q3?'', choices = [ex_cy, ex_cn],
            q_topic_id = ''t1'', difficulty = ''easy'', q_page_reference = 4\<rparr>"

definition ex_e1 :: TopicExplanation where
  "ex_e1 = \<lparr>te_topic_id = ''t1'', topic_title = ''Trees'',
            te_explanation = ''Trees are acyclic.'', prerequisite_concepts = [],
            next_steps = [], related_topics = []\<rparr>"

definition ex_e2 :: TopicExplanation where
  "ex_e2 = \<lparr>te_topic_id = ''t2'', topic_title = ''Heaps'', te_explanation = [],
            prerequisite_concepts = [], next_steps = [], related_topics = []\<rparr>"

definition ex_data :: DashboardData where
  "ex_data =
     \<lparr>dd_structure = \<lparr>topics = [ex_t1, ex_t2], document_title = ''Trees''\<rparr>,
      dd_explanations = \<lparr>overarching_explanation = ''Data structures.'',
                         topic_explanations = [ex_e1, ex_e2]\<rparr>,
      dd_quiz = \<lparr>questions = [ex_q1, ex_q2, ex_q3]\<rparr>\<rparr>"

text \<open>The same shape with no topic at all, and with a first topic that has no subtopic.\<close>

definition ex_no_topics :: DashboardData where
  "ex_no_topics =
     \<lparr>dd_structure = \<lparr>topics = [], document_title = ''Empty''\<rparr>,
      dd_explanations = \<lparr>overarching_explanation = [], topic_explanations = []\<rparr>,
      dd_quiz = \<lparr>questions = [ex_q1]\<rparr>\<rparr>"

definition ex_t0 :: Topic where
  "ex_t0 = \<lparr>t_id = ''t0'', t_title = ''Preface'', subtopics = [], page_range = []\<rparr>"

definition ex_bare_first :: DashboardData where
  "ex_bare_first =
     \<lparr>dd_structure = \<lparr>topics = [ex_t0, ex_t1], document_title = ''Trees''\<rparr>,
      dd_explanations = \<lparr>overarching_explanation = [], topic_explanations = [ex_e1]\<rparr>,
      dd_quiz = \<lparr>questions = [ex_q1]\<rparr>\<rparr>"

definition ex_loaded :: App where
  "ex_loaded = loadEvent (Some ex_data) initialApp"

text \<open>
  States of the sample session: after the load (first subtopic \<^verbatim>\<open>s1\<close> selected, first
  of two questions shown); after then picking the first question's choice whose id is
  empty; after instead picking its correct choice and pressing Next; and after
  selecting \<^verbatim>\<open>s3\<close> in the sidebar right after the load.
\<close>

definition ex_props_q1 :: QuizProps where
  "ex_props_q1 =
     \<lparr>prop_question = ''Q1?'', prop_answers = [convertChoice ex_cx, convertChoice ex_cy],
      onAnswerSelect = True, onNext = True, isComplete = False\<rparr>"

definition ex_props_q2 :: QuizProps where
  "ex_props_q2 =
     \<lparr>prop_question = ''Q2?'', prop_answers = [convertChoice ex_cn],
      onAnswerSelect = True, onNext = True, isComplete = False\<rparr>"

definition ex_answered_empty :: App where
  "ex_answered_empty = answerClick (convertChoice ex_cx) ex_loaded"

definition ex_second_question :: App where
  "ex_second_question = nextClick (answerClick (convertChoice ex_cy) ex_loaded)"

definition ex_on_s3 :: App where
  "ex_on_s3 = sidebarSelect ex_s3 ex_loaded"

lemmas ex_defs =
  ex_s1_def ex_s2_def ex_s3_def ex_s4_def ex_t0_def ex_t1_def ex_t2_def
  ex_cx_def ex_cy_def ex_cn_def ex_q1_def ex_q2_def ex_q3_def ex_e1_def ex_e2_def
  ex_data_def ex_no_topics_def ex_bare_first_def

section \<open>Properties of the lookups\<close>

lemma array_find_None_iff: "array_find p xs = None \<longleftrightarrow> (\<forall>x \<in> set xs. \<not> p x)"
  by (induction xs) auto

lemma array_find_Some_first:
  "array_find p xs = Some x \<longleftrightarrow>
     (\<exists>j < length xs. xs ! j = x \<and> p x \<and> (\<forall>k < j. \<not> p (xs ! k)))"
proof (induction xs)
  case Nil
  show ?case by simp
next
  case (Cons y ys)
  show ?case
  proof (cases "p y")
    case True
    have "(\<exists>j < length (y # ys). (y # ys) ! j = x \<and> p x \<and> (\<forall>k < j. \<not> p ((y # ys) ! k)))
          \<longleftrightarrow> y = x"
    proof
      assume "\<exists>j < length (y # ys). (y # ys) ! j = x \<and> p x \<and> (\<forall>k < j. \<not> p ((y # ys) ! k))"
      then obtain j where j: "(y # ys) ! j = x" "\<forall>k < j. \<not> p ((y # ys) ! k)" by blast
      have "j = 0"
      proof (rule ccontr)
        assume "j \<noteq> 0"
        then have "\<not> p ((y # ys) ! 0)" using j(2) by blast
        then show False using True by simp
      qed
      then show "y = x" using j(1) by simp
    next
      assume "y = x"
      then have "(y # ys) ! 0 = x \<and> p x \<and> (\<forall>k < 0. \<not> p ((y # ys) ! k))"
        using True by simp
      then show "\<exists>j < length (y # ys). (y # ys) ! j = x \<and> p x \<and> (\<forall>k < j. \<not> p ((y # ys) ! k))"
        by (intro exI [of _ 0]) simp
    qed
    then show ?thesis using True by simp
  next
    case False
    have "(\<exists>j < length (y # ys). (y # ys) ! j = x \<and> p x \<and> (\<forall>k < j. \<not> p ((y # ys) ! k)))
          \<longleftrightarrow> (\<exists>j < length ys. ys ! j = x \<and> p x \<and> (\<forall>k < j. \<not> p (ys ! k)))"
      (is "?L \<longleftrightarrow> ?R")
    proof
      assume ?L
      then obtain j where j: "j < length (y # ys)" "(y # ys) ! j = x" "p x"
        "\<forall>k < j. \<not> p ((y # ys) ! k)" by blast
      have "j \<noteq> 0" using j(2,3) False by (cases j) auto
      then obtain i where i: "j = Suc i" by (cases j) auto
      have "\<forall>k < i. \<not> p (ys ! k)"
      proof (intro allI impI)
        fix k assume "k < i"
        then have "Suc k < j" using i by simp
        then have "\<not> p ((y # ys) ! Suc k)" using j(4) by blast
        then show "\<not> p (ys ! k)" by simp
      qed
      then show ?R using j i by (intro exI [of _ i]) simp
    next
      assume ?R
      then obtain i where i: "i < length ys" "ys ! i = x" "p x" "\<forall>k < i. \<not> p (ys ! k)"
        by blast
      have "\<forall>k < Suc i. \<not> p ((y # ys) ! k)"
      proof (intro allI impI)
        fix k assume "k < Suc i"
        then show "\<not> p ((y # ys) ! k)" using i(4) False by (cases k) auto
      qed
      then show ?L using i by (intro exI [of _ "Suc i"]) simp
    qed
    then show ?thesis using False Cons.IH by simp
  qed
qed

lemma array_find_Some_set: "array_find p xs = Some x \<Longrightarrow> x \<in> set xs \<and> p x"
  by (induction xs) (auto split: if_splits)

lemma array_filter_eq_filter: "array_filter p xs = filter p xs"
  by (induction xs) simp_all

lemma findSubtopicById_loop_as_find:
  "findSubtopicById_loop ts sid =
     (case array_find (\<lambda>t. array_find (\<lambda>sub. sub_id sub = sid) (subtopics t) \<noteq> None) ts of
        None \<Rightarrow> None
      | Some t \<Rightarrow> (case array_find (\<lambda>sub. sub_id sub = sid) (subtopics t) of
                    None \<Rightarrow> None | Some s \<Rightarrow> Some (t, s)))"
  by (induction ts) (auto split: option.splits)

lemma findSubtopicById_loop_None_iff:
  "findSubtopicById_loop ts sid = None \<longleftrightarrow>
     (\<forall>t \<in> set ts. \<forall>s \<in> set (subtopics t). sub_id s \<noteq> sid)"
  by (induction ts)
     (auto simp: array_find_None_iff split: option.splits dest: array_find_Some_set)

lemma findSubtopicById_loop_Some_set:
  "findSubtopicById_loop ts sid = Some (t, s) \<Longrightarrow>
     t \<in> set ts \<and> s \<in> set (subtopics t) \<and> sub_id s = sid"
  by (induction ts) (auto split: option.splits dest: array_find_Some_set)

lemma findSubtopicById_loop_Some_iff:
  "findSubtopicById_loop ts sid = Some (t, s) \<longleftrightarrow>
     (\<exists>i < length ts. \<exists>j < length (subtopics t).
        ts ! i = t \<and> subtopics t ! j = s \<and> sub_id s = sid
        \<and> (\<forall>i' < i. \<forall>s' \<in> set (subtopics (ts ! i')). sub_id s' \<noteq> sid)
        \<and> (\<forall>j' < j. sub_id (subtopics t ! j') \<noteq> sid))"
  (is "?L \<longleftrightarrow> ?R")
proof -
  let ?P = "\<lambda>sub. sub_id sub = sid"
  let ?Q = "\<lambda>t. array_find ?P (subtopics t) \<noteq> None"
  let ?M = "(\<exists>i < length ts. ts ! i = t
               \<and> \<not> (\<forall>s' \<in> set (subtopics t). sub_id s' \<noteq> sid)
               \<and> (\<forall>k < i. \<not> \<not> (\<forall>s' \<in> set (subtopics (ts ! k)). sub_id s' \<noteq> sid)))
            \<and> (\<exists>j < length (subtopics t). subtopics t ! j = s \<and> ?P s
                  \<and> (\<forall>k < j. \<not> ?P (subtopics t ! k)))"
  have Q: "\<And>u. ?Q u \<longleftrightarrow> \<not> (\<forall>s' \<in> set (subtopics u). sub_id s' \<noteq> sid)"
    by (simp add: array_find_None_iff)
  have "?L \<longleftrightarrow> array_find ?Q ts = Some t \<and> array_find ?P (subtopics t) = Some s"
    by (auto simp: findSubtopicById_loop_as_find split: option.splits
             dest: array_find_Some_set)
  also have "\<dots> \<longleftrightarrow>
      (\<exists>i < length ts. ts ! i = t \<and> ?Q t \<and> (\<forall>k < i. \<not> ?Q (ts ! k)))
      \<and> (\<exists>j < length (subtopics t). subtopics t ! j = s \<and> ?P s
            \<and> (\<forall>k < j. \<not> ?P (subtopics t ! k)))"
    by (simp only: array_find_Some_first)
  also have "\<dots> \<longleftrightarrow> ?M"
    unfolding Q ..
  also have "?M \<longleftrightarrow> ?R"
  proof
    assume ?M
    then show ?R by blast
  next
    assume ?R
    then obtain i j where ij: "i < length ts" "j < length (subtopics t)" "ts ! i = t"
      "subtopics t ! j = s" "sub_id s = sid"
      "\<forall>i' < i. \<forall>s' \<in> set (subtopics (ts ! i')). sub_id s' \<noteq> sid"
      "\<forall>j' < j. sub_id (subtopics t ! j') \<noteq> sid" by blast
    have "s \<in> set (subtopics t)" using ij(2,4) nth_mem by blast
    then have "\<not> (\<forall>s' \<in> set (subtopics t). sub_id s' \<noteq> sid)" using ij(5) by blast
    then show ?M using ij by blast
  qed
  finally show ?thesis .
qed

text \<open>
  Claim C7. \<^verbatim>\<open>findSubtopicById\<close> returns the pair of the first subtopic with the given
  id in document order (topics in order, each topic's subtopics in order) and the topic
  that holds it: no earlier topic has a subtopic with that id, and no earlier subtopic
  of the returned topic has it. The returned subtopic is one of the returned topic's
  subtopics. The result is absent exactly when no topic has a subtopic with that id.
\<close>

theorem findSubtopicById_first_in_document_order:
  "(findSubtopicById data sid = None \<longleftrightarrow>
      (\<forall>t \<in> set (topics (dd_structure data)). \<forall>s \<in> set (subtopics t). sub_id s \<noteq> sid))
   \<and> (findSubtopicById data sid = Some (t, s) \<longleftrightarrow>
        (\<exists>i < length (topics (dd_structure data)). \<exists>j < length (subtopics t).
           topics (dd_structure data) ! i = t \<and> subtopics t ! j = s \<and> sub_id s = sid
           \<and> (\<forall>i' < i. \<forall>s' \<in> set (subtopics (topics (dd_structure data) ! i')).
                 sub_id s' \<noteq> sid)
           \<and> (\<forall>j' < j. sub_id (subtopics t ! j') \<noteq> sid)))
   \<and> (findSubtopicById data sid = Some (t, s) \<longrightarrow>
        t \<in> set (topics (dd_structure data)) \<and> s \<in> set (subtopics t) \<and> sub_id s = sid)"
  unfolding findSubtopicById_def
  using findSubtopicById_loop_None_iff [of "topics (dd_structure data)" sid]
        findSubtopicById_loop_Some_iff [of "topics (dd_structure data)" sid t s]
        findSubtopicById_loop_Some_set [of "topics (dd_structure data)" sid t s]
  by blast

theorem findSubtopicById_first_in_document_order_witness:
  "findSubtopicById ex_data ''s3'' = Some (ex_t2, ex_s3)
   \<and> ex_t2 \<in> set (topics (dd_structure ex_data))
   \<and> ex_s3 \<in> set (subtopics ex_t2)
   \<and> sub_id ex_s3 = ''s3''
   \<and> findSubtopicById ex_data ''s9'' = None"
proof -
  have found: "findSubtopicById ex_data ''s3'' = Some (ex_t2, ex_s3)"
    by (simp add: findSubtopicById_def ex_defs)
  have none: "\<forall>t \<in> set (topics (dd_structure ex_data)). \<forall>s \<in> set (subtopics t).
                sub_id s \<noteq> ''s9''"
    by (simp add: ex_defs)
  from findSubtopicById_first_in_document_order [of ex_data "''s3''" ex_t2 ex_s3] found
  have "ex_t2 \<in> set (topics (dd_structure ex_data)) \<and> ex_s3 \<in> set (subtopics ex_t2)
        \<and> sub_id ex_s3 = ''s3''"
    by blast
  moreover from findSubtopicById_first_in_document_order [of ex_data "''s9''" ex_t2 ex_s3] none
  have "findSubtopicById ex_data ''s9'' = None"
    by blast
  ultimately show ?thesis using found by blast
qed

lemma findSubtopicById_present:
  assumes "t \<in> set (topics (dd_structure data))" and "s \<in> set (subtopics t)"
  shows "\<exists>t0 s0. findSubtopicById data (sub_id s) = Some (t0, s0)
           \<and> t0 \<in> set (topics (dd_structure data)) \<and> s0 \<in> set (subtopics t0)
           \<and> sub_id s0 = sub_id s"
proof -
  have "findSubtopicById_loop (topics (dd_structure data)) (sub_id s) \<noteq> None"
    using assms by (auto simp: findSubtopicById_loop_None_iff)
  then obtain t0 s0 where
    "findSubtopicById_loop (topics (dd_structure data)) (sub_id s) = Some (t0, s0)"
    by (cases "findSubtopicById_loop (topics (dd_structure data)) (sub_id s)") auto
  then show ?thesis
    using findSubtopicById_loop_Some_set [of "topics (dd_structure data)" "sub_id s" t0 s0]
    by (auto simp: findSubtopicById_def)
qed

text \<open>
  Claim C5, the fallback law. When \<^verbatim>\<open>findSubtopicById\<close> resolves a subtopic id to the
  topic \<open>t\<close>, \<^verbatim>\<open>getSubtopicExplanation\<close> and \<^verbatim>\<open>getSubtopicQuestions\<close> at that id equal
  \<^verbatim>\<open>getTopicExplanation\<close> and \<^verbatim>\<open>getTopicQuestions\<close> at \<open>t\<close>'s id. In particular, for a
  subtopic \<open>s\<close> of a topic \<open>t\<close> of the dataset such that every topic holding a subtopic
  with \<open>s\<close>'s id has \<open>t\<close>'s id (the owner is not ambiguous), the law holds with \<open>t\<close>.
\<close>

theorem subtopic_fallback_law:
  "(findSubtopicById data sid = Some (t, s) \<longrightarrow>
      getSubtopicExplanation data sid = getTopicExplanation data (t_id t)
      \<and> getSubtopicQuestions data sid = getTopicQuestions data (t_id t))
   \<and> (t \<in> set (topics (dd_structure data)) \<and> s \<in> set (subtopics t)
       \<and> (\<forall>t' \<in> set (topics (dd_structure data)). \<forall>s' \<in> set (subtopics t').
             sub_id s' = sub_id s \<longrightarrow> t_id t' = t_id t) \<longrightarrow>
      getSubtopicExplanation data (sub_id s) = getTopicExplanation data (t_id t)
      \<and> getSubtopicQuestions data (sub_id s) = getTopicQuestions data (t_id t))"
proof (intro conjI impI)
  assume "findSubtopicById data sid = Some (t, s)"
  then show "getSubtopicExplanation data sid = getTopicExplanation data (t_id t)"
    and "getSubtopicQuestions data sid = getTopicQuestions data (t_id t)"
    by (simp_all add: getSubtopicExplanation_def getSubtopicQuestions_def)
next
  assume a: "t \<in> set (topics (dd_structure data)) \<and> s \<in> set (subtopics t)
       \<and> (\<forall>t' \<in> set (topics (dd_structure data)). \<forall>s' \<in> set (subtopics t').
             sub_id s' = sub_id s \<longrightarrow> t_id t' = t_id t)"
  then obtain t0 s0 where f: "findSubtopicById data (sub_id s) = Some (t0, s0)"
    and m: "t0 \<in> set (topics (dd_structure data))" "s0 \<in> set (subtopics t0)"
           "sub_id s0 = sub_id s"
    using findSubtopicById_present [of t data s] by blast
  have "t_id t0 = t_id t" using a m by blast
  then show "getSubtopicExplanation data (sub_id s) = getTopicExplanation data (t_id t)"
    and "getSubtopicQuestions data (sub_id s) = getTopicQuestions data (t_id t)"
    using f by (simp_all add: getSubtopicExplanation_def getSubtopicQuestions_def)
qed

theorem subtopic_fallback_law_witness:
  "findSubtopicById ex_data ''s2'' = Some (ex_t1, ex_s2)
   \<and> getSubtopicExplanation ex_data ''s2'' = getTopicExplanation ex_data ''t1''
   \<and> getSubtopicQuestions ex_data ''s2'' = getTopicQuestions ex_data ''t1''
   \<and> getSubtopicExplanation ex_data ''s2'' = Some ''Trees are acyclic.''
   \<and> getSubtopicQuestions ex_data ''s2'' = [ex_q1, ex_q3]"
proof -
  have found: "findSubtopicById ex_data ''s2'' = Some (ex_t1, ex_s2)"
    by (simp add: findSubtopicById_def ex_defs)
  have tid: "t_id ex_t1 = ''t1''"
    by (simp add: ex_t1_def)
  have e: "getTopicExplanation ex_data ''t1'' = Some ''Trees are acyclic.''"
    by (simp add: getTopicExplanation_def ex_defs)
  have q: "getTopicQuestions ex_data ''t1'' = [ex_q1, ex_q3]"
    by (simp add: getTopicQuestions_def ex_defs)
  from subtopic_fallback_law [of ex_data "''s2''" ex_t1 ex_s2] found tid
  have "getSubtopicExplanation ex_data ''s2'' = getTopicExplanation ex_data ''t1''
        \<and> getSubtopicQuestions ex_data ''s2'' = getTopicQuestions ex_data ''t1''"
    by simp
  then show ?thesis using found e q by simp
qed

text \<open>
  Claim C6. \<^verbatim>\<open>getTopicQuestions\<close> returns the questions of \<^verbatim>\<open>data.quiz.questions\<close>
  whose \<^verbatim>\<open>topic_id\<close> is the given id, in the collection's order: it is a subsequence
  of the collection, all of its elements have that \<^verbatim>\<open>topic_id\<close>, and every
  subsequence of the collection whose elements all have that \<^verbatim>\<open>topic_id\<close> is a
  subsequence of it.
\<close>

theorem getTopicQuestions_exact_subsequence:
  "getTopicQuestions data topicId =
     filter (\<lambda>q. q_topic_id q = topicId) (questions (dd_quiz data))
   \<and> subseq (getTopicQuestions data topicId) (questions (dd_quiz data))
   \<and> (\<forall>q \<in> set (getTopicQuestions data topicId). q_topic_id q = topicId)
   \<and> (subseq ys (questions (dd_quiz data)) \<and> (\<forall>q \<in> set ys. q_topic_id q = topicId)
        \<longrightarrow> subseq ys (getTopicQuestions data topicId))"
proof -
  let ?P = "\<lambda>q. q_topic_id q = topicId"
  let ?xs = "questions (dd_quiz data)"
  have eq: "getTopicQuestions data topicId = filter ?P ?xs"
    by (simp add: getTopicQuestions_def array_filter_eq_filter)
  have max: "subseq ys (filter ?P ?xs)" if "subseq ys ?xs" "\<forall>q \<in> set ys. ?P q"
  proof -
    have "subseq (filter ?P ys) (filter ?P ?xs)" using that(1) by (rule subseq_filter)
    moreover have "filter ?P ys = ys" using that(2) by (simp add: filter_id_conv)
    ultimately show ?thesis by simp
  qed
  show ?thesis using max by (auto simp: eq)
qed

theorem getTopicQuestions_exact_subsequence_witness:
  "subseq [ex_q3] (questions (dd_quiz ex_data))
   \<and> q_topic_id ex_q3 = ''t1''
   \<and> getTopicQuestions ex_data ''t1'' = [ex_q1, ex_q3]
   \<and> subseq [ex_q3] (getTopicQuestions ex_data ''t1'')"
proof -
  have s: "subseq [ex_q3] (questions (dd_quiz ex_data))"
    by (simp add: ex_defs)
  have t: "\<forall>q \<in> set [ex_q3]. q_topic_id q = ''t1''"
    by (simp add: ex_q3_def)
  have f: "filter (\<lambda>q. q_topic_id q = ''t1'') (questions (dd_quiz ex_data)) = [ex_q1, ex_q3]"
    by (simp add: ex_defs)
  from getTopicQuestions_exact_subsequence [of ex_data "''t1''" "[ex_q3]"] s t f
  show ?thesis by simp
qed

text \<open>
  Claim C10. \<^verbatim>\<open>getTopicExplanation\<close> is absent when no \<^verbatim>\<open>TopicExplanation\<close> has the
  topic id, and also when the first one that has it carries the empty text; it is that
  text otherwise. \<^verbatim>\<open>getSubtopicExplanation\<close> is absent whenever the explanation of the
  topic it resolves to is absent, so in both of these cases too.
\<close>

theorem getTopicExplanation_absent_for_empty_text:
  "(array_find (\<lambda>e. te_topic_id e = topicId) (topic_explanations (dd_explanations data))
      = None \<longrightarrow> getTopicExplanation data topicId = None)
   \<and> (array_find (\<lambda>e. te_topic_id e = topicId) (topic_explanations (dd_explanations data))
        = Some e \<and> te_explanation e = [] \<longrightarrow> getTopicExplanation data topicId = None)
   \<and> (array_find (\<lambda>e. te_topic_id e = topicId) (topic_explanations (dd_explanations data))
        = Some e \<and> te_explanation e \<noteq> [] \<longrightarrow>
        getTopicExplanation data topicId = Some (te_explanation e))
   \<and> (findSubtopicById data sid = Some (t, s) \<and> t_id t = topicId
        \<and> getTopicExplanation data topicId = None \<longrightarrow>
        getSubtopicExplanation data sid = None)"
  by (auto simp: getTopicExplanation_def getSubtopicExplanation_def)

theorem getTopicExplanation_absent_for_empty_text_witness:
  "array_find (\<lambda>e. te_topic_id e = ''t2'') (topic_explanations (dd_explanations ex_data))
     = Some ex_e2
   \<and> te_explanation ex_e2 = []
   \<and> getTopicExplanation ex_data ''t2'' = None
   \<and> findSubtopicById ex_data ''s3'' = Some (ex_t2, ex_s3)
   \<and> getSubtopicExplanation ex_data ''s3'' = None"
proof -
  have f: "array_find (\<lambda>e. te_topic_id e = ''t2'')
             (topic_explanations (dd_explanations ex_data)) = Some ex_e2"
    by (simp add: ex_defs)
  have e: "te_explanation ex_e2 = []"
    by (simp add: ex_e2_def)
  have found: "findSubtopicById ex_data ''s3'' = Some (ex_t2, ex_s3)"
    by (simp add: findSubtopicById_def ex_defs)
  have tid: "t_id ex_t2 = ''t2''"
    by (simp add: ex_t2_def)
  note inst = getTopicExplanation_absent_for_empty_text
               [of "''t2''" ex_data ex_e2 "''s3''" ex_t2 ex_s3]
  from inst f e have n: "getTopicExplanation ex_data ''t2'' = None"
    by blast
  from inst found tid n have "getSubtopicExplanation ex_data ''s3'' = None"
    by blast
  then show ?thesis using f e found n by blast
qed

section \<open>Properties of the page and the quiz\<close>

subsection \<open>Rendering\<close>

lemma page_render [simp]: "page (render st old) = st"
  by (simp add: render_def)

lemma panel_render [simp]: "panel (render st old) = reconcile (quizContainer st) old"
  by (simp add: render_def)

lemma mounted_render: "mounted (render st old)"
  by (cases "quizContainer st"; cases old) (simp_all add: mounted_def)

lemma render_mounted_id: "mounted app \<Longrightarrow> render (page app) (panel app) = app"
  by (cases "panel app") (auto simp: mounted_def render_def)

lemma mounted_QuizPanelD:
  "mounted app \<Longrightarrow> panel app = QuizPanel k props q \<Longrightarrow>
     quizContainer (page app) = QuizElement k props"
  by (simp add: mounted_def)

lemma quizContainer_explanationText [simp]:
  "quizContainer (st\<lparr>explanationText := e\<rparr>) = quizContainer st"
  by (simp add: quizContainer_def)

lemma resetEffect_initial [simp]: "resetEffect initialQuizState = initialQuizState"
  by (simp add: resetEffect_def initialQuizState_def)

lemma reconcile_keyed_fresh:
  "freshIfKeyed old \<Longrightarrow>
     reconcile (QuizElement (Some k) props) old = QuizPanel (Some k) props initialQuizState"
  by (cases old) (auto simp: freshIfKeyed_def split: option.splits)

lemma quizFresh_reconcile: "quizFresh old \<Longrightarrow> quizFresh (reconcile e old)"
  by (cases e; cases old)
     (auto simp: quizFresh_def resetEffect_def initialQuizState_def split: option.splits)

lemma quizKey_inject_sel: "quizKey (Some a) idx = quizKey (Some b) idx \<longleftrightarrow> a = b"
  by (simp add: quizKey_def)

lemma initialApp_eq: "initialApp = \<lparr>page = initialPageState, panel = PlaceholderPanel\<rparr>"
  by (simp add: initialApp_def render_def quizContainer_def initialPageState_def)

lemma progression_InProgressD:
  assumes "progression st = InProgress idx"
  shows "idx = currentQuestionIndex st" and "idx < length (questionStack st)"
    and "\<not> questionsComplete st"
    and "quizContainer st =
           QuizElement (Some (quizKey (selectedSubtopicId st) idx))
             \<lparr>prop_question = question (questionStack st ! idx),
              prop_answers = answers (questionStack st ! idx),
              onAnswerSelect = True, onNext = True, isComplete = False\<rparr>"
  using assms by (auto simp: progression_def quizContainer_def split: if_splits)

lemma explanationPanelText_eq:
  "explanationPanelText t = (if t = [] then ''No explanation available.'' else t)"
  by (simp add: explanationPanelText_def)

subsection \<open>Selecting a subtopic: the PDF page\<close>

lemma pdfPageNumber_questionStackEffect [simp]:
  "pdfPageNumber (questionStackEffect st) = pdfPageNumber st"
  by (simp add: questionStackEffect_def Let_def split: option.splits)

lemma pdfPageNumber_subtopicClick:
  "pdfPageNumber (page (subtopicClick sid pageReference app)) =
     pdfPageNumber (handleSubtopicClick sid pageReference (page app))"
  by (simp add: subtopicClick_def Let_def)

text \<open>
  Claim C8. Selecting a subtopic with a positive page reference \<open>n\<close> sets the current
  PDF page to \<open>n\<close>; selecting one whose page reference is zero (or negative), or
  absent, leaves the current PDF page as it was. This holds for the handler called with
  any id and for the sidebar's call with a subtopic's own id and page reference.
\<close>

theorem subtopic_click_sets_pdf_page_only_when_positive:
  "(0 < n \<longrightarrow> pdfPageNumber (page (subtopicClick sid (Some n) app)) = Some n)
   \<and> (n \<le> 0 \<longrightarrow>
        pdfPageNumber (page (subtopicClick sid (Some n) app)) = pdfPageNumber (page app))
   \<and> pdfPageNumber (page (subtopicClick sid None app)) = pdfPageNumber (page app)
   \<and> (0 < sub_page_reference sub \<longrightarrow>
        pdfPageNumber (page (sidebarSelect sub app)) = Some (sub_page_reference sub))
   \<and> (sub_page_reference sub = 0 \<longrightarrow>
        pdfPageNumber (page (sidebarSelect sub app)) = pdfPageNumber (page app))"
  by (simp add: pdfPageNumber_subtopicClick sidebarSelect_def handleSubtopicClick_def Let_def)

theorem subtopic_click_sets_pdf_page_only_when_positive_witness:
  "(0 :: int) < 5
   \<and> pdfPageNumber (page ex_loaded) = None
   \<and> pdfPageNumber (page (subtopicClick ''s3'' (Some 5) ex_loaded)) = Some 5
   \<and> pdfPageNumber (page (subtopicClick ''s2'' (Some 0) (subtopicClick ''s3'' (Some 5) ex_loaded)))
       = Some 5
   \<and> sub_page_reference ex_s2 = 0
   \<and> pdfPageNumber (page (sidebarSelect ex_s2 (subtopicClick ''s3'' (Some 5) ex_loaded)))
       = Some 5"
proof -
  let ?a = "subtopicClick ''s3'' (Some 5) ex_loaded"
  have n: "pdfPageNumber (page ex_loaded) = None"
    by code_simp
  have z: "sub_page_reference ex_s2 = 0"
    by (simp add: ex_s2_def)
  from subtopic_click_sets_pdf_page_only_when_positive [of 5 "''s3''" ex_loaded ex_s2]
  have 1: "pdfPageNumber (page ?a) = Some 5"
    by simp
  from subtopic_click_sets_pdf_page_only_when_positive [of 0 "''s2''" ?a ex_s2] z 1
  have 2: "pdfPageNumber (page (subtopicClick ''s2'' (Some 0) ?a)) = Some 5
           \<and> pdfPageNumber (page (sidebarSelect ex_s2 ?a)) = Some 5"
    by simp
  show ?thesis using n z 1 2 by simp
qed

subsection \<open>Loading the dataset: the initial selection\<close>

lemma dataLoaded_first:
  "topics (dd_structure data) = t # ts \<Longrightarrow> subtopics t = s # ss \<Longrightarrow>
     dataLoaded (Some data) st =
       st\<lparr>dashboardData := Some data, selectedSubtopicId := Some (sub_id s)\<rparr>"
  by (simp add: dataLoaded_def Let_def)

lemma dataLoaded_none:
  "topics (dd_structure data) = []
     \<or> (topics (dd_structure data) = t # ts \<and> subtopics t = [])
   \<Longrightarrow> dataLoaded (Some data) st = st\<lparr>dashboardData := Some data\<rparr>"
  by (auto simp: dataLoaded_def Let_def)

lemma selectedSubtopicId_questionStackEffect [simp]:
  "selectedSubtopicId (questionStackEffect st) = selectedSubtopicId st"
  by (simp add: questionStackEffect_def Let_def split: option.splits)

lemma questionStackEffect_unselected:
  "selectedSubtopicId st = None \<Longrightarrow> questionStackEffect st = st"
  by (simp add: questionStackEffect_def split: option.splits)

lemma loadEvent_page:
  "page (loadEvent (Some data) app) = questionStackEffect (dataLoaded (Some data) (page app))"
  by (simp add: loadEvent_def Let_def)

lemma loadEvent_panel:
  "panel (loadEvent (Some data) app) =
     reconcile (quizContainer (page (loadEvent (Some data) app)))
       (reconcile (quizContainer (dataLoaded (Some data) (page app))) (panel app))"
  by (simp add: loadEvent_def Let_def)

text \<open>
  Claim C9. When the loaded dataset has a first topic and that topic has a first
  subtopic, the load selects that subtopic's id. When the dataset has no topic, or its
  first topic has no subtopic, the load only stores the dataset: the selection stays
  absent, the progression is \<open>Empty\<close> and the quiz container shows its placeholder.
  The handler has no failing branch: it reads \<^verbatim>\<open>topics[0]\<close> and \<^verbatim>\<open>subtopics[0]\<close> only
  under its two length tests, and a failed fetch (\<open>None\<close>) changes nothing.
\<close>

theorem load_selects_first_subtopic_of_first_topic:
  "(topics (dd_structure data) = t # ts \<and> subtopics t = s # ss \<longrightarrow>
      selectedSubtopicId (page (loadEvent (Some data) initialApp)) = Some (sub_id s))
   \<and> (topics (dd_structure data) = []
        \<or> (topics (dd_structure data) = t # ts \<and> subtopics t = []) \<longrightarrow>
        selectedSubtopicId (page (loadEvent (Some data) initialApp)) = None
        \<and> progression (page (loadEvent (Some data) initialApp)) = Empty
        \<and> panel (loadEvent (Some data) initialApp) = PlaceholderPanel
        \<and> page (loadEvent (Some data) initialApp)
            = initialPageState\<lparr>dashboardData := Some data\<rparr>)
   \<and> loadEvent None initialApp = initialApp"
proof (intro conjI impI)
  assume "topics (dd_structure data) = t # ts \<and> subtopics t = s # ss"
  then show "selectedSubtopicId (page (loadEvent (Some data) initialApp)) = Some (sub_id s)"
    by (simp add: loadEvent_page dataLoaded_first)
next
  assume a: "topics (dd_structure data) = []
               \<or> (topics (dd_structure data) = t # ts \<and> subtopics t = [])"
  have d: "dataLoaded (Some data) initialPageState
             = initialPageState\<lparr>dashboardData := Some data\<rparr>"
    using a by (rule dataLoaded_none)
  have "page (loadEvent (Some data) initialApp) =
          questionStackEffect (initialPageState\<lparr>dashboardData := Some data\<rparr>)"
    by (simp add: loadEvent_page initialApp_eq d)
  also have "\<dots> = initialPageState\<lparr>dashboardData := Some data\<rparr>"
    by (rule questionStackEffect_unselected) (simp add: initialPageState_def)
  finally have p: "page (loadEvent (Some data) initialApp) =
                     initialPageState\<lparr>dashboardData := Some data\<rparr>" .
  show "page (loadEvent (Some data) initialApp) = initialPageState\<lparr>dashboardData := Some data\<rparr>"
    by (rule p)
  show "selectedSubtopicId (page (loadEvent (Some data) initialApp)) = None"
    by (simp add: p initialPageState_def)
  show "progression (page (loadEvent (Some data) initialApp)) = Empty"
    by (simp add: p initialPageState_def progression_def)
  show "panel (loadEvent (Some data) initialApp) = PlaceholderPanel"
    by (simp add: loadEvent_panel p) (simp add: initialPageState_def quizContainer_def)
next
  show "loadEvent None initialApp = initialApp"
    by (simp add: loadEvent_def)
qed

theorem load_selects_first_subtopic_of_first_topic_witness:
  "topics (dd_structure ex_data) = ex_t1 # [ex_t2] \<and> subtopics ex_t1 = ex_s1 # [ex_s2]
   \<and> selectedSubtopicId (page (loadEvent (Some ex_data) initialApp)) = Some ''s1''
   \<and> topics (dd_structure ex_no_topics) = []
   \<and> selectedSubtopicId (page (loadEvent (Some ex_no_topics) initialApp)) = None
   \<and> progression (page (loadEvent (Some ex_no_topics) initialApp)) = Empty
   \<and> topics (dd_structure ex_bare_first) = ex_t0 # [ex_t1] \<and> subtopics ex_t0 = []
   \<and> selectedSubtopicId (page (loadEvent (Some ex_bare_first) initialApp)) = None
   \<and> progression (page (loadEvent (Some ex_bare_first) initialApp)) = Empty"
proof -
  have a: "topics (dd_structure ex_data) = ex_t1 # [ex_t2]"
    "subtopics ex_t1 = ex_s1 # [ex_s2]" "sub_id ex_s1 = ''s1''"
    by (simp_all add: ex_defs)
  have b: "topics (dd_structure ex_no_topics) = []"
    by (simp add: ex_defs)
  have c: "topics (dd_structure ex_bare_first) = ex_t0 # [ex_t1]" "subtopics ex_t0 = []"
    by (simp_all add: ex_defs)
  from load_selects_first_subtopic_of_first_topic [of ex_data ex_t1 "[ex_t2]" ex_s1 "[ex_s2]"] a
  have 1: "selectedSubtopicId (page (loadEvent (Some ex_data) initialApp)) = Some ''s1''"
    by simp
  from load_selects_first_subtopic_of_first_topic [of ex_no_topics ex_t0 "[]" ex_s1 "[]"] b
  have 2: "selectedSubtopicId (page (loadEvent (Some ex_no_topics) initialApp)) = None
    \<and> progression (page (loadEvent (Some ex_no_topics) initialApp)) = Empty"
    by blast
  from load_selects_first_subtopic_of_first_topic [of ex_bare_first ex_t0 "[ex_t1]" ex_s1 "[]"] c
  have 3: "selectedSubtopicId (page (loadEvent (Some ex_bare_first) initialApp)) = None
    \<and> progression (page (loadEvent (Some ex_bare_first) initialApp)) = Empty"
    by blast
  show ?thesis using a b c 1 2 3 by blast
qed

subsection \<open>Answering a question\<close>

lemma answerClick_first:
  assumes "mounted app" and "progression (page app) = InProgress idx"
    and "panel app = QuizPanel k props q" and "selectedAnswer q = None"
  shows "page (answerClick a app) = (page app)\<lparr>explanationText := ans_explanation a\<rparr>"
    and "panel (answerClick a app) =
           QuizPanel k props
             (if isCorrect a
              then q\<lparr>selectedAnswer := Some (ans_id a),
                     selectedExplanation := Some (ans_explanation a),
                     correctAnswerId := Some (ans_id a)\<rparr>
              else (case array_find isCorrect (prop_answers props) of
                      Some c \<Rightarrow> q\<lparr>selectedAnswer := Some (ans_id a),
                                   selectedExplanation := Some (ans_explanation a),
                                   correctAnswerId := Some (ans_id c)\<rparr>
                    | None \<Rightarrow> q\<lparr>selectedAnswer := Some (ans_id a),
                                 selectedExplanation := Some (ans_explanation a)\<rparr>))"
proof -
  have c: "quizContainer (page app) = QuizElement k props"
    using assms(1,3) by (rule mounted_QuizPanelD)
  have props: "isComplete props = False" "onAnswerSelect props = True"
    using c progression_InProgressD(4) [OF assms(2)] by auto
  let ?q1 = "q\<lparr>selectedAnswer := Some (ans_id a),
                selectedExplanation := Some (ans_explanation a)\<rparr>"
  let ?q2 = "if isCorrect a then ?q1\<lparr>correctAnswerId := Some (ans_id a)\<rparr>
             else (case array_find isCorrect (prop_answers props) of
                     Some c \<Rightarrow> ?q1\<lparr>correctAnswerId := Some (ans_id c)\<rparr>
                   | None \<Rightarrow> ?q1)"
  have h: "handleAnswerClick (ans_id a) (isCorrect a) (ans_explanation a) props (q, page app)
             = (?q2, (page app)\<lparr>explanationText := ans_explanation a\<rparr>)"
    using assms(4) props by (simp add: handleAnswerClick_def handleAnswerSelect_def Let_def)
  have r: "answerClick a app =
             render ((page app)\<lparr>explanationText := ans_explanation a\<rparr>) (QuizPanel k props ?q2)"
    using assms(3) props h by (simp add: answerClick_def Let_def)
  show "page (answerClick a app) = (page app)\<lparr>explanationText := ans_explanation a\<rparr>"
    by (simp add: r)
  show "panel (answerClick a app) =
           QuizPanel k props
             (if isCorrect a
              then q\<lparr>selectedAnswer := Some (ans_id a),
                     selectedExplanation := Some (ans_explanation a),
                     correctAnswerId := Some (ans_id a)\<rparr>
              else (case array_find isCorrect (prop_answers props) of
                      Some c \<Rightarrow> q\<lparr>selectedAnswer := Some (ans_id a),
                                   selectedExplanation := Some (ans_explanation a),
                                   correctAnswerId := Some (ans_id c)\<rparr>
                    | None \<Rightarrow> q\<lparr>selectedAnswer := Some (ans_id a),
                                 selectedExplanation := Some (ans_explanation a)\<rparr>))"
    by (simp add: r c split: option.splits)
qed

text \<open>
  Claim C4. In a state showing a question in which no answer has been picked yet, a
  click on any answer makes the page's explanation text that answer's explanation,
  whether the answer is correct or not, whatever the text was before; nothing else of
  the page changes. The quiz records the picked id and explanation. When the picked
  answer is one of the question's and none of them is correct, no correct answer id is
  recorded and no button is styled as correct, and the picked answer's explanation is
  the page's text all the same. The functions are total: no branch of them fails.
\<close>

theorem first_answer_shows_picked_explanation:
  assumes "mounted app" and "progression (page app) = InProgress idx"
    and "panel app = QuizPanel k props q"
    and "selectedAnswer q = None" and "correctAnswerId q = None"
  shows "page (answerClick a app) = (page app)\<lparr>explanationText := ans_explanation a\<rparr>
    \<and> explanationText (page (answerClick a app)) = ans_explanation a
    \<and> (\<exists>q'. panel (answerClick a app) = QuizPanel k props q'
          \<and> selectedAnswer q' = Some (ans_id a)
          \<and> selectedExplanation q' = Some (ans_explanation a)
          \<and> (a \<in> set (prop_answers props)
               \<and> (\<forall>b \<in> set (prop_answers props). \<not> isCorrect b)
               \<longrightarrow> correctAnswerId q' = None
                   \<and> (\<forall>b \<in> set (prop_answers props). getButtonStyle q' b \<noteq> Green)))"
proof -
  let ?q1 = "q\<lparr>selectedAnswer := Some (ans_id a),
                selectedExplanation := Some (ans_explanation a)\<rparr>"
  let ?q2 = "if isCorrect a then ?q1\<lparr>correctAnswerId := Some (ans_id a)\<rparr>
             else (case array_find isCorrect (prop_answers props) of
                     Some c \<Rightarrow> ?q1\<lparr>correctAnswerId := Some (ans_id c)\<rparr>
                   | None \<Rightarrow> ?q1)"
  have pg: "page (answerClick a app) = (page app)\<lparr>explanationText := ans_explanation a\<rparr>"
    using assms(1-4) by (rule answerClick_first(1))
  have pn: "panel (answerClick a app) = QuizPanel k props ?q2"
    using answerClick_first(2) [OF assms(1-4), of a] by (simp split: option.splits)
  have sa: "selectedAnswer ?q2 = Some (ans_id a)"
    "selectedExplanation ?q2 = Some (ans_explanation a)"
    by (simp_all split: option.splits)
  have nc: "correctAnswerId ?q2 = None
            \<and> (\<forall>b \<in> set (prop_answers props). getButtonStyle ?q2 b \<noteq> Green)"
    if "a \<in> set (prop_answers props)" "\<forall>b \<in> set (prop_answers props). \<not> isCorrect b"
  proof -
    have "\<not> isCorrect a" using that by blast
    moreover have "array_find isCorrect (prop_answers props) = None"
      using that(2) by (simp add: array_find_None_iff)
    ultimately show ?thesis using that(2) assms(5) by (simp add: getButtonStyle_def)
  qed
  show ?thesis using pg pn sa nc by simp
qed

theorem first_answer_shows_picked_explanation_witness:
  "mounted ex_loaded \<and> progression (page ex_loaded) = InProgress 0
   \<and> panel ex_loaded = QuizPanel (Some ''s1-0'') ex_props_q1 initialQuizState
   \<and> explanationText (page ex_loaded) = ''Trees are acyclic.''
   \<and> explanationText (page (answerClick (convertChoice ex_cy) ex_loaded)) = ''Right.''
   \<and> explanationText (page (answerClick (convertChoice ex_cx) ex_loaded)) = ''Wrong.''
   \<and> mounted ex_on_s3 \<and> progression (page ex_on_s3) = InProgress 0
   \<and> panel ex_on_s3 = QuizPanel (Some ''s3-0'') ex_props_q2 initialQuizState
   \<and> explanationText (page (answerClick (convertChoice ex_cn) ex_on_s3)) = ''Neither.''
   \<and> (\<exists>q'. panel (answerClick (convertChoice ex_cn) ex_on_s3)
               = QuizPanel (Some ''s3-0'') ex_props_q2 q'
             \<and> selectedAnswer q' = Some ''n'' \<and> correctAnswerId q' = None)"
proof -
  have l: "mounted ex_loaded" "progression (page ex_loaded) = InProgress 0"
    "panel ex_loaded = QuizPanel (Some ''s1-0'') ex_props_q1 initialQuizState"
    "explanationText (page ex_loaded) = ''Trees are acyclic.''"
    by code_simp+
  have s: "mounted ex_on_s3" "progression (page ex_on_s3) = InProgress 0"
    "panel ex_on_s3 = QuizPanel (Some ''s3-0'') ex_props_q2 initialQuizState"
    by code_simp+
  have i: "selectedAnswer initialQuizState = None" "correctAnswerId initialQuizState = None"
    by (simp_all add: initialQuizState_def)
  have e: "ans_explanation (convertChoice ex_cy) = ''Right.''"
    "ans_explanation (convertChoice ex_cx) = ''Wrong.''"
    "ans_explanation (convertChoice ex_cn) = ''Neither.''"
    "ans_id (convertChoice ex_cn) = ''n''"
    by (simp_all add: convertChoice_def ex_defs)
  have n: "convertChoice ex_cn \<in> set (prop_answers ex_props_q2)"
    "\<forall>b \<in> set (prop_answers ex_props_q2). \<not> isCorrect b"
    by (simp_all add: ex_props_q2_def convertChoice_def ex_defs)
  from first_answer_shows_picked_explanation [OF l(1,2,3) i, of "convertChoice ex_cy"] e
  have 1: "explanationText (page (answerClick (convertChoice ex_cy) ex_loaded)) = ''Right.''"
    by simp
  from first_answer_shows_picked_explanation [OF l(1,2,3) i, of "convertChoice ex_cx"] e
  have 2: "explanationText (page (answerClick (convertChoice ex_cx) ex_loaded)) = ''Wrong.''"
    by simp
  from first_answer_shows_picked_explanation [OF s i, of "convertChoice ex_cn"] e n
  have 3: "explanationText (page (answerClick (convertChoice ex_cn) ex_on_s3)) = ''Neither.''
    \<and> (\<exists>q'. panel (answerClick (convertChoice ex_cn) ex_on_s3)
               = QuizPanel (Some ''s3-0'') ex_props_q2 q'
             \<and> selectedAnswer q' = Some ''n'' \<and> correctAnswerId q' = None)"
    by auto
  show ?thesis using l s 1 2 3 by blast
qed

lemma answerClick_when_truthy:
  assumes "mounted app" and "panel app = QuizPanel k props q"
    and "truthy (selectedAnswer q)"
  shows "answerClick b app = app"
proof -
  have "handleAnswerClick (ans_id b) (isCorrect b) (ans_explanation b) props (q, page app)
          = (q, page app)"
    using assms(3) by (simp add: handleAnswerClick_def)
  then have "answerClick b app
               = (if isComplete props then app else render (page app) (panel app))"
    using assms(2) by (simp add: answerClick_def Let_def)
  then show ?thesis using render_mounted_id [OF assms(1)] by simp
qed

text \<open>
  The one-shot rule where the code keeps it: after a first pick whose id is not the
  empty string, any further pick on that question changes nothing.
\<close>

lemma second_answer_is_noop:
  assumes "mounted app" and "progression (page app) = InProgress idx"
    and "panel app = QuizPanel k props q" and "selectedAnswer q = None"
    and "ans_id a \<noteq> []"
  shows "answerClick b (answerClick a app) = answerClick a app"
proof -
  obtain q' where q': "panel (answerClick a app) = QuizPanel k props q'"
    "selectedAnswer q' = Some (ans_id a)"
    using answerClick_first(2) [OF assms(1-4), of a] by (simp split: option.splits)
  have m: "mounted (answerClick a app)"
    using assms(3) by (simp add: answerClick_def Let_def mounted_render assms(1))
  show ?thesis
    using answerClick_when_truthy [OF m q'(1)] q'(2) assms(5) by simp
qed

text \<open>
  Where it does not: a recorded id that is the empty string is falsy, and the next
  pick goes through as if it were the first.
\<close>

lemma pick_after_empty_id_pick_is_accepted:
  assumes "mounted app" and "progression (page app) = InProgress idx"
    and "panel app = QuizPanel k props q" and "selectedAnswer q = None"
    and "ans_id a = []"
  shows "page (answerClick b (answerClick a app))
           = (page app)\<lparr>explanationText := ans_explanation b\<rparr>"
proof -
  let ?app1 = "answerClick a app"
  have pg: "page ?app1 = (page app)\<lparr>explanationText := ans_explanation a\<rparr>"
    using assms(1-4) by (rule answerClick_first(1))
  obtain q' where q': "panel ?app1 = QuizPanel k props q'"
    "selectedAnswer q' = Some (ans_id a)"
    using answerClick_first(2) [OF assms(1-4), of a] by (simp split: option.splits)
  have c: "quizContainer (page app) = QuizElement k props"
    using assms(1,3) by (rule mounted_QuizPanelD)
  have props: "isComplete props = False" "onAnswerSelect props = True"
    using c progression_InProgressD(4) [OF assms(2)] by auto
  have "\<not> truthy (selectedAnswer q')" using q'(2) assms(5) by simp
  then have "snd (handleAnswerClick (ans_id b) (isCorrect b) (ans_explanation b) props
                    (q', page ?app1))
               = (page ?app1)\<lparr>explanationText := ans_explanation b\<rparr>"
    using props by (simp add: handleAnswerClick_def handleAnswerSelect_def Let_def)
  then have "page (answerClick b ?app1) = (page ?app1)\<lparr>explanationText := ans_explanation b\<rparr>"
    using q'(1) props by (simp add: answerClick_def Let_def)
  then show ?thesis by (simp add: pg)
qed

text \<open>
  Claim C3 (the code departs from it). \<^verbatim>\<open>handleAnswerClick\<close> guards against a second
  pick with \<^verbatim>\<open>if (selectedAnswer) return\<close>, commented \<^verbatim>\<open>Prevent multiple selections\<close>.
  The test is one of truthiness, so a recorded id that is the empty string does not
  stop a second pick. In the sample session the first question's first choice has the
  empty id: after picking it the quiz records \<open>Some []\<close> and the page shows
  \<^verbatim>\<open>Wrong.\<close>; picking the second choice afterwards is accepted, records \<^verbatim>\<open>y\<close> and
  replaces the page's text by \<^verbatim>\<open>Right.\<close>, so the state after the second pick is not
  the state after the first.
\<close>

theorem second_pick_accepted_after_empty_id_pick:
  "progression (page ex_loaded) = InProgress 0
   \<and> panel ex_loaded = QuizPanel (Some ''s1-0'') ex_props_q1 initialQuizState
   \<and> panel ex_answered_empty =
       QuizPanel (Some ''s1-0'') ex_props_q1
         \<lparr>selectedAnswer = Some [], correctAnswerId = Some ''y'',
          selectedExplanation = Some ''Wrong.''\<rparr>
   \<and> explanationText (page ex_answered_empty) = ''Wrong.''
   \<and> panel (answerClick (convertChoice ex_cy) ex_answered_empty) =
       QuizPanel (Some ''s1-0'') ex_props_q1
         \<lparr>selectedAnswer = Some ''y'', correctAnswerId = Some ''y'',
          selectedExplanation = Some ''Right.''\<rparr>
   \<and> explanationText (page (answerClick (convertChoice ex_cy) ex_answered_empty)) = ''Right.''
   \<and> answerClick (convertChoice ex_cy) ex_answered_empty \<noteq> ex_answered_empty"
  by code_simp

subsection \<open>Advancing to the next question\<close>

lemma nextClick_unanswered:
  assumes "mounted app" and "panel app = QuizPanel k props q" and "selectedAnswer q = None"
  shows "nextClick app = app"
proof -
  have "handleNext props (q, page app) = (q, page app)"
    using assms(3) by (simp add: handleNext_def)
  then have "nextClick app = (if isComplete props then app else render (page app) (panel app))"
    using assms(2) by (simp add: nextClick_def Let_def)
  then show ?thesis using render_mounted_id [OF assms(1)] by simp
qed

lemma nextClick_answered_page:
  assumes "mounted app" and "progression (page app) = InProgress idx"
    and "panel app = QuizPanel k props q" and "truthy (selectedAnswer q)"
  shows "page (nextClick app) = handleNextQuestion (page app)"
proof -
  have c: "quizContainer (page app) = QuizElement k props"
    using assms(1,3) by (rule mounted_QuizPanelD)
  have props: "isComplete props = False" "onNext props = True"
    using c progression_InProgressD(4) [OF assms(2)] by auto
  show ?thesis using assms(3,4) props by (simp add: nextClick_def handleNext_def Let_def)
qed

lemma handleNextQuestion_advance:
  assumes "progression st = InProgress idx" and "idx + 1 < length (questionStack st)"
    and "dashboardData st = Some data" and "selectedSubtopicId st = Some sid"
    and "sid \<noteq> []"
  shows "handleNextQuestion st =
           st\<lparr>currentQuestionIndex := idx + 1,
              explanationText :=
                or_else (getSubtopicExplanation data sid) ''No explanation available.''\<rparr>"
    and "progression (handleNextQuestion st) = InProgress (idx + 1)"
proof -
  have i: "idx = currentQuestionIndex st" "\<not> questionsComplete st"
    using progression_InProgressD [OF assms(1)] by simp_all
  show 1: "handleNextQuestion st =
           st\<lparr>currentQuestionIndex := idx + 1,
              explanationText :=
                or_else (getSubtopicExplanation data sid) ''No explanation available.''\<rparr>"
    using assms(2-5) i by (simp add: handleNextQuestion_def Let_def)
  show "progression (handleNextQuestion st) = InProgress (idx + 1)"
    unfolding 1 using assms(2) i by (auto simp: progression_def)
qed

lemma handleNextQuestion_complete:
  assumes "progression st = InProgress idx" and "idx + 1 = length (questionStack st)"
  shows "handleNextQuestion st =
           st\<lparr>questionsComplete := True,
              explanationText := ''All questions have been answered!''\<rparr>"
    and "progression (handleNextQuestion st) = Complete"
proof -
  have i: "idx = currentQuestionIndex st"
    using progression_InProgressD [OF assms(1)] by simp
  show 1: "handleNextQuestion st =
           st\<lparr>questionsComplete := True,
              explanationText := ''All questions have been answered!''\<rparr>"
    using assms(2) i by (simp add: handleNextQuestion_def Let_def)
  show "progression (handleNextQuestion st) = Complete"
    unfolding 1 by (simp add: progression_def)
qed

text \<open>
  The quiz container tests the stack and the index before \<^verbatim>\<open>questionsComplete\<close>, and
  completing leaves the index alone: after the last advance the container still asks
  for the keyed quiz of the last question, not for the \<^verbatim>\<open>isComplete\<close> one.
\<close>

lemma complete_keeps_rendering_last_question:
  assumes "progression st = InProgress idx" and "idx + 1 = length (questionStack st)"
  shows "quizContainer (handleNextQuestion st) = quizContainer st"
  using handleNextQuestion_complete(1) [OF assms] progression_InProgressD(1,2) [OF assms(1)]
  by (auto simp: quizContainer_def)

text \<open>
  The advance rule where the code keeps it. With no answer recorded, Next changes
  nothing. With a recorded answer id that is not the empty string, and a selected
  subtopic id that is not the empty string, Next moves to the following question and
  resets the page's text to the subtopic's explanation (the placeholder
  \<^verbatim>\<open>No explanation available.\<close> when there is none), or, on the last question, sets
  \<^verbatim>\<open>questionsComplete\<close> and the completion message.
\<close>

lemma next_when_answered_with_nonempty_id:
  assumes "mounted app" and "progression (page app) = InProgress idx"
    and "panel app = QuizPanel k props q"
    and "selectedAnswer q = Some a" and "a \<noteq> []"
    and "dashboardData (page app) = Some data"
    and "selectedSubtopicId (page app) = Some sid" and "sid \<noteq> []"
  shows "idx + 1 < length (questionStack (page app)) \<Longrightarrow>
           page (nextClick app) =
             (page app)\<lparr>currentQuestionIndex := idx + 1,
                explanationText :=
                  or_else (getSubtopicExplanation data sid) ''No explanation available.''\<rparr>
           \<and> progression (page (nextClick app)) = InProgress (idx + 1)"
    and "idx + 1 = length (questionStack (page app)) \<Longrightarrow>
           page (nextClick app) =
             (page app)\<lparr>questionsComplete := True,
                explanationText := ''All questions have been answered!''\<rparr>
           \<and> progression (page (nextClick app)) = Complete"
proof -
  have t: "truthy (selectedAnswer q)" using assms(4,5) by simp
  have p: "page (nextClick app) = handleNextQuestion (page app)"
    using assms(1-3) t by (rule nextClick_answered_page)
  show "page (nextClick app) =
             (page app)\<lparr>currentQuestionIndex := idx + 1,
                explanationText :=
                  or_else (getSubtopicExplanation data sid) ''No explanation available.''\<rparr>
           \<and> progression (page (nextClick app)) = InProgress (idx + 1)"
    if "idx + 1 < length (questionStack (page app))"
    unfolding p using handleNextQuestion_advance [OF assms(2) that assms(6,7,8)] by simp
  show "page (nextClick app) =
             (page app)\<lparr>questionsComplete := True,
                explanationText := ''All questions have been answered!''\<rparr>
           \<and> progression (page (nextClick app)) = Complete"
    if "idx + 1 = length (questionStack (page app))"
    unfolding p using handleNextQuestion_complete [OF assms(2) that] by simp
qed

text \<open>Where it does not: a recorded id that is the empty string does not let Next through.\<close>

lemma next_after_empty_id_pick_is_rejected:
  assumes "mounted app" and "panel app = QuizPanel k props q"
    and "selectedAnswer q = Some []"
  shows "nextClick app = app"
proof -
  have "handleNext props (q, page app) = (q, page app)"
    using assms(3) by (simp add: handleNext_def)
  then have "nextClick app = (if isComplete props then app else render (page app) (panel app))"
    using assms(2) by (simp add: nextClick_def Let_def)
  then show ?thesis using render_mounted_id [OF assms(1)] by simp
qed

text \<open>
  Claim C2 (the code departs from it). \<^verbatim>\<open>handleNext\<close> lets the advance through with
  \<^verbatim>\<open>if (selectedAnswer && onNext)\<close>, again a truthiness test on the recorded id. In the
  sample session, after the first question (index 0 of 2) has been answered with its
  choice whose id is the empty string, the question counts as answered
  (\<open>selectedAnswer\<close> is \<open>Some []\<close>, its explanation is shown) and \<open>0 + 1 < 2\<close>, yet
  Next changes nothing: the state stays at \<open>InProgress 0\<close>.
\<close>

theorem next_rejected_after_empty_id_pick:
  "panel ex_answered_empty =
       QuizPanel (Some ''s1-0'') ex_props_q1
         \<lparr>selectedAnswer = Some [], correctAnswerId = Some ''y'',
          selectedExplanation = Some ''Wrong.''\<rparr>
   \<and> answered \<lparr>selectedAnswer = Some [], correctAnswerId = Some ''y'',
                selectedExplanation = Some ''Wrong.''\<rparr>
   \<and> progression (page ex_answered_empty) = InProgress 0
   \<and> length (questionStack (page ex_answered_empty)) = 2
   \<and> nextClick ex_answered_empty = ex_answered_empty
   \<and> progression (page (nextClick ex_answered_empty)) = InProgress 0"
  by code_simp

subsection \<open>Changing the selection\<close>

lemma handleSubtopicClick_fields [simp]:
  "selectedSubtopicId (handleSubtopicClick sid pr st) = Some sid"
  "dashboardData (handleSubtopicClick sid pr st) = dashboardData st"
  "questionStack (handleSubtopicClick sid pr st) = questionStack st"
  "currentQuestionIndex (handleSubtopicClick sid pr st) = currentQuestionIndex st"
  "questionsComplete (handleSubtopicClick sid pr st) = questionsComplete st"
  by (simp_all add: handleSubtopicClick_def Let_def split: option.splits)

text \<open>
  The render between the handler and the effect already sees the new id in the key,
  with the old stack and index: a keyed quiz is remounted there.
\<close>

lemma panel_after_reselect:
  assumes m: "mounted app"
    and ch: "selectedSubtopicId (page app) \<noteq> Some sid"
    and inv: "selectedSubtopicId (page app) = None \<Longrightarrow> questionStack (page app) = []"
  shows "freshIfKeyed
           (reconcile (quizContainer (handleSubtopicClick sid pr (page app))) (panel app))"
proof (cases "length (questionStack (page app)) > 0
              \<and> currentQuestionIndex (page app) < length (questionStack (page app))")
  case True
  let ?st = "page app"
  let ?props = "\<lparr>prop_question = question (questionStack ?st ! currentQuestionIndex ?st),
                 prop_answers = answers (questionStack ?st ! currentQuestionIndex ?st),
                 onAnswerSelect = True, onNext = True, isComplete = False\<rparr>"
  obtain old where old: "selectedSubtopicId ?st = Some old" "old \<noteq> sid"
    using True inv ch by (cases "selectedSubtopicId ?st") auto
  have c0: "quizContainer ?st =
          QuizElement (Some (quizKey (Some old) (currentQuestionIndex ?st))) ?props"
    using True old by (simp add: quizContainer_def)
  have c1: "quizContainer (handleSubtopicClick sid pr ?st) =
          QuizElement (Some (quizKey (Some sid) (currentQuestionIndex ?st))) ?props"
    using True by (simp add: quizContainer_def)
  obtain q where p:
    "panel app = QuizPanel (Some (quizKey (Some old) (currentQuestionIndex ?st))) ?props q"
    using m c0 by (cases "panel app") (auto simp: mounted_def)
  show ?thesis
    unfolding c1 p using old(2) by (simp add: quizKey_inject_sel freshIfKeyed_def)
next
  case False
  then have "quizContainer (handleSubtopicClick sid pr (page app)) = PlaceholderElement
     \<or> (\<exists>props. quizContainer (handleSubtopicClick sid pr (page app)) = QuizElement None props)"
    by (auto simp: quizContainer_def)
  then show ?thesis
    by (cases "panel app") (auto simp: freshIfKeyed_def)
qed

lemma questionStackEffect_recompute:
  assumes "dashboardData st = Some data" and "selectedSubtopicId st = Some sid"
    and "sid \<noteq> []"
  shows "questionStackEffect st =
     (if getSubtopicQuestions data sid \<noteq> [] then
        st\<lparr>questionStack := map convertQuestionToQuizFormat (getSubtopicQuestions data sid),
           currentQuestionIndex := 0, questionsComplete := False,
           explanationText :=
             or_else (getSubtopicExplanation data sid) ''No explanation available.''\<rparr>
      else
        st\<lparr>questionStack := [], currentQuestionIndex := 0, questionsComplete := False,
           explanationText := ''No questions available for this subtopic.''\<rparr>)"
  using assms by (simp add: questionStackEffect_def Let_def)

text \<open>
  The selection rule where the code keeps it: a change of the selected id to an id that
  is not the empty string, with a dataset loaded, recomputes the stack from
  \<^verbatim>\<open>getSubtopicQuestions\<close> at the new id; a non-empty list gives \<open>InProgress 0\<close> with a
  quiz in its initial state, an empty one gives \<open>Empty\<close> and the placeholder.
\<close>

lemma selection_change_recomputes:
  assumes m: "mounted app" and d: "dashboardData (page app) = Some data"
    and ch: "selectedSubtopicId (page app) \<noteq> Some sid" and ne: "sid \<noteq> []"
    and inv: "selectedSubtopicId (page app) = None \<Longrightarrow> questionStack (page app) = []"
  shows "questionStack (page (subtopicClick sid pr app)) =
           map convertQuestionToQuizFormat (getSubtopicQuestions data sid)"
    and "getSubtopicQuestions data sid \<noteq> [] \<Longrightarrow>
           progression (page (subtopicClick sid pr app)) = InProgress 0
           \<and> (\<exists>k props. panel (subtopicClick sid pr app)
                          = QuizPanel (Some k) props initialQuizState)"
    and "getSubtopicQuestions data sid = [] \<Longrightarrow>
           progression (page (subtopicClick sid pr app)) = Empty
           \<and> panel (subtopicClick sid pr app) = PlaceholderPanel"
proof -
  let ?st1 = "handleSubtopicClick sid pr (page app)"
  let ?p1 = "reconcile (quizContainer ?st1) (panel app)"
  let ?qs = "getSubtopicQuestions data sid"
  have click: "subtopicClick sid pr app = render (questionStackEffect ?st1) ?p1"
    using ch by (simp add: subtopicClick_def Let_def)
  have eff: "questionStackEffect ?st1 =
     (if ?qs \<noteq> [] then
        ?st1\<lparr>questionStack := map convertQuestionToQuizFormat ?qs,
           currentQuestionIndex := 0, questionsComplete := False,
           explanationText :=
             or_else (getSubtopicExplanation data sid) ''No explanation available.''\<rparr>
      else
        ?st1\<lparr>questionStack := [], currentQuestionIndex := 0, questionsComplete := False,
           explanationText := ''No questions available for this subtopic.''\<rparr>)"
    by (rule questionStackEffect_recompute) (simp_all add: d ne)
  have fresh: "freshIfKeyed ?p1"
    using m ch inv by (rule panel_after_reselect)
  show "questionStack (page (subtopicClick sid pr app)) = map convertQuestionToQuizFormat ?qs"
    by (simp add: click eff)
  show "progression (page (subtopicClick sid pr app)) = InProgress 0
        \<and> (\<exists>k props. panel (subtopicClick sid pr app)
                       = QuizPanel (Some k) props initialQuizState)"
    if "?qs \<noteq> []"
  proof -
    have pr: "progression (questionStackEffect ?st1) = InProgress 0"
      using that by (simp add: eff progression_def)
    obtain k props where
      "quizContainer (questionStackEffect ?st1) = QuizElement (Some k) props"
      using progression_InProgressD(4) [OF pr] by blast
    then have "panel (subtopicClick sid pr app) = QuizPanel (Some k) props initialQuizState"
      using fresh by (simp add: click reconcile_keyed_fresh)
    then show ?thesis using pr by (simp add: click)
  qed
  show "progression (page (subtopicClick sid pr app)) = Empty
        \<and> panel (subtopicClick sid pr app) = PlaceholderPanel"
    if "?qs = []"
    using that by (simp add: click eff progression_def quizContainer_def)
qed

text \<open>
  Where it does not: selecting the empty string as id runs the handler only; the stack,
  the index, the flag and the text stay those of the previous selection.
\<close>

lemma selection_of_empty_id_skips_effect:
  "page (subtopicClick [] pr app) = handleSubtopicClick [] pr (page app)"
  "questionStack (page (subtopicClick [] pr app)) = questionStack (page app)"
  "currentQuestionIndex (page (subtopicClick [] pr app)) = currentQuestionIndex (page app)"
  "questionsComplete (page (subtopicClick [] pr app)) = questionsComplete (page app)"
  "explanationText (page (subtopicClick [] pr app)) = explanationText (page app)"
  by (simp_all add: subtopicClick_def questionStackEffect_def handleSubtopicClick_def Let_def
        split: option.splits)

text \<open>
  Claim C1 (the code departs from it). The effect commented
  \<^verbatim>\<open>Update question stack when subtopic changes\<close> starts with
  \<^verbatim>\<open>if (!dashboardData || !selectedSubtopicId) return\<close>, a truthiness test that also
  holds for the empty string. In the sample session the user is on the second question
  of subtopic \<^verbatim>\<open>s1\<close> (\<open>InProgress 1\<close>) and selects the sidebar's subtopic whose id is
  the empty string. The selected id changes to it and the PDF page follows, and
  \<^verbatim>\<open>getSubtopicQuestions\<close> at the new id is the one-question list of the other topic;
  but the stack is still the two questions of the old selection, the index is still 1
  and the text is still the old topic's explanation.
\<close>

theorem empty_id_selection_keeps_old_stack:
  "selectedSubtopicId (page ex_second_question) = Some ''s1''
   \<and> progression (page ex_second_question) = InProgress 1
   \<and> selectedSubtopicId (page (sidebarSelect ex_s4 ex_second_question)) = Some []
   \<and> pdfPageNumber (page (sidebarSelect ex_s4 ex_second_question)) = Some 7
   \<and> findSubtopicById ex_data [] = Some (ex_t2, ex_s4)
   \<and> getSubtopicQuestions ex_data [] = [ex_q2]
   \<and> questionStack (page (sidebarSelect ex_s4 ex_second_question))
       = map convertQuestionToQuizFormat [ex_q1, ex_q3]
   \<and> progression (page (sidebarSelect ex_s4 ex_second_question)) = InProgress 1
   \<and> explanationText (page (sidebarSelect ex_s4 ex_second_question)) = ''Trees are acyclic.''"
  by code_simp

subsection \<open>Every reachable state is coherent\<close>

lemma coherent_alt:
  "coherent app \<longleftrightarrow> mounted app
     \<and> (selectedSubtopicId (page app) = None \<longrightarrow> questionStack (page app) = [])
     \<and> quizFresh (panel app)"
  by (auto simp: coherent_def split: option.splits)

lemma coherent_init: "coherent initialApp"
  by (simp add: coherent_alt initialApp_eq mounted_def quizFresh_def quizContainer_def
                initialPageState_def)

lemma dataLoaded_questionStack [simp]:
  "questionStack (dataLoaded r st) = questionStack st"
  by (simp add: dataLoaded_def Let_def split: option.splits)

lemma dataLoaded_sel_None:
  "selectedSubtopicId (dataLoaded r st) = None \<Longrightarrow> selectedSubtopicId st = None"
  by (auto simp: dataLoaded_def Let_def split: option.splits if_splits)

lemma coherent_load: "coherent app \<Longrightarrow> coherent (loadEvent r app)"
proof (cases r)
  case None
  then show "coherent app \<Longrightarrow> ?thesis" by (simp add: loadEvent_def)
next
  case (Some data)
  assume c: "coherent app"
  have 1: "mounted (loadEvent r app)"
    by (simp add: Some loadEvent_def Let_def mounted_render)
  have 2: "questionStack (page (loadEvent r app)) = []"
    if "selectedSubtopicId (page (loadEvent r app)) = None"
  proof -
    have n: "selectedSubtopicId (dataLoaded (Some data) (page app)) = None"
      using that by (simp add: Some loadEvent_page)
    then have "selectedSubtopicId (page app) = None" by (rule dataLoaded_sel_None)
    then have "questionStack (page app) = []" using c by (simp add: coherent_alt)
    then show ?thesis using n by (simp add: Some loadEvent_page questionStackEffect_unselected)
  qed
  have 3: "quizFresh (panel (loadEvent r app))"
    using c by (simp add: Some loadEvent_panel coherent_alt quizFresh_reconcile)
  show ?thesis using 1 2 3 by (simp add: coherent_alt)
qed

lemma coherent_select: "coherent app \<Longrightarrow> coherent (subtopicClick sid pr app)"
  by (auto simp: coherent_alt subtopicClick_def Let_def mounted_render quizFresh_reconcile)

lemma quizFresh_handleAnswerClick:
  "quizFresh (QuizPanel k props q) \<Longrightarrow>
     quizFresh (QuizPanel k props (fst (handleAnswerClick i c e props (q, st))))"
  by (auto simp: quizFresh_def handleAnswerClick_def Let_def split: option.splits)

lemma handleAnswerClick_page_fields [simp]:
  "selectedSubtopicId (snd (handleAnswerClick i c e props (q, st))) = selectedSubtopicId st"
  "questionStack (snd (handleAnswerClick i c e props (q, st))) = questionStack st"
  by (simp_all add: handleAnswerClick_def handleAnswerSelect_def Let_def)

lemma coherent_answer: "coherent app \<Longrightarrow> coherent (answerClick a app)"
proof (cases "panel app")
  case PlaceholderPanel
  then show "coherent app \<Longrightarrow> ?thesis" by (simp add: answerClick_def)
next
  case (QuizPanel k props q)
  assume c: "coherent app"
  show ?thesis
  proof (cases "isComplete props")
    case True
    then show ?thesis using c QuizPanel by (simp add: answerClick_def)
  next
    case False
    have "quizFresh (QuizPanel k props q)" using c QuizPanel by (simp add: coherent_alt)
    then show ?thesis
      using c QuizPanel False
      by (simp add: coherent_alt answerClick_def Let_def mounted_render quizFresh_reconcile
                    quizFresh_handleAnswerClick)
  qed
qed

lemma handleNextQuestion_fields [simp]:
  "selectedSubtopicId (handleNextQuestion st) = selectedSubtopicId st"
  "questionStack (handleNextQuestion st) = questionStack st"
  by (simp_all add: handleNextQuestion_def Let_def split: option.splits)

lemma handleNext_fields [simp]:
  "fst (handleNext props (q, st)) = q"
  "selectedSubtopicId (snd (handleNext props (q, st))) = selectedSubtopicId st"
  "questionStack (snd (handleNext props (q, st))) = questionStack st"
  by (simp_all add: handleNext_def)

lemma coherent_next: "coherent app \<Longrightarrow> coherent (nextClick app)"
proof (cases "panel app")
  case PlaceholderPanel
  then show "coherent app \<Longrightarrow> ?thesis" by (simp add: nextClick_def)
next
  case (QuizPanel k props q)
  assume c: "coherent app"
  have "quizFresh (QuizPanel k props q)" using c QuizPanel by (simp add: coherent_alt)
  then show ?thesis
    using c QuizPanel
    by (simp add: coherent_alt nextClick_def Let_def mounted_render quizFresh_reconcile)
qed

lemma reachable_coherent: "reachable app \<Longrightarrow> coherent app"
  by (induction rule: reachable.induct)
     (simp_all add: coherent_init coherent_load coherent_select coherent_answer coherent_next)

text \<open>
  So in every reachable state that shows a question the keyed quiz of that question is
  mounted, and a quiz with no recorded answer is in its initial state.
\<close>

lemma in_progress_panel:
  assumes "mounted app" and "progression (page app) = InProgress idx"
  shows "\<exists>q. panel app =
           QuizPanel (Some (quizKey (selectedSubtopicId (page app)) idx))
             \<lparr>prop_question = question (questionStack (page app) ! idx),
              prop_answers = answers (questionStack (page app) ! idx),
              onAnswerSelect = True, onNext = True, isComplete = False\<rparr> q"
  using assms(1) progression_InProgressD(4) [OF assms(2)]
  by (cases "panel app") (auto simp: mounted_def)

lemma reachable_in_progress_panel:
  assumes "reachable app" and "progression (page app) = InProgress idx"
  shows "\<exists>k props q. panel app = QuizPanel k props q"
proof -
  have "mounted app"
    using reachable_coherent [OF assms(1)] by (simp add: coherent_alt)
  then show ?thesis using in_progress_panel [OF _ assms(2)] by blast
qed

lemma reachable_unanswered_initial:
  assumes "reachable app" and "panel app = QuizPanel k props q" and "selectedAnswer q = None"
  shows "q = initialQuizState"
  using reachable_coherent [OF assms(1)] assms(2,3)
  by (simp add: coherent_alt quizFresh_def)

end
